theory Spec2Isabelle
  imports Complex_Main "HOL-Library.Multiset" "HOL-Library.Char_ord" "HOL-Library.List_Lexorder"
begin

section \<open>JavaScript values as the ledger code sees them\<close>

text \<open>
  The three ledger implementations of the repository (the Express handler over SQLite, the
  in-memory mock service and the Supabase client) compute on JavaScript numbers. A number is
  modelled as an exact rational or one of the three non-finite values; rounding of doubles,
  overflow to infinity and the sign of zero are not represented, so the model agrees with the
  program as long as the sums involved are exactly representable (integer amounts below
  \<open>2^53\<close>, for instance).
\<close>

datatype jsnum = Fin rat | NaN | PInf | NInf

fun num_add :: "jsnum \<Rightarrow> jsnum \<Rightarrow> jsnum" where
  "num_add NaN _ = NaN"
| "num_add _ NaN = NaN"
| "num_add (Fin a) (Fin b) = Fin (a + b)"
| "num_add PInf NInf = NaN"
| "num_add NInf PInf = NaN"
| "num_add PInf _ = PInf"
| "num_add _ PInf = PInf"
| "num_add NInf _ = NInf"
| "num_add _ NInf = NInf"

fun num_neg :: "jsnum \<Rightarrow> jsnum" where
  "num_neg (Fin a) = Fin (- a)"
| "num_neg NaN = NaN"
| "num_neg PInf = NInf"
| "num_neg NInf = PInf"

definition num_sub :: "jsnum \<Rightarrow> jsnum \<Rightarrow> jsnum" where
  "num_sub a b = num_add a (num_neg b)"

text \<open>The comparison \<open>a < b\<close> on numbers; every comparison with \<open>NaN\<close> is false.\<close>

fun num_lt :: "jsnum \<Rightarrow> jsnum \<Rightarrow> bool" where
  "num_lt (Fin a) (Fin b) = (a < b)"
| "num_lt (Fin a) PInf = True"
| "num_lt NInf (Fin b) = True"
| "num_lt NInf PInf = True"
| "num_lt _ _ = False"

text \<open>\<open>a <= b\<close> on numbers: false when either side is \<open>NaN\<close>, otherwise \<open>not (b < a)\<close>.\<close>

definition num_le :: "jsnum \<Rightarrow> jsnum \<Rightarrow> bool" where
  "num_le a b = (a \<noteq> NaN \<and> b \<noteq> NaN \<and> \<not> num_lt b a)"

text \<open>
  The values a parsed JSON body, a query result or a local variable of the ledger code can
  hold. Arrays and objects are left out: no field the ledger reads is meant to hold one.
\<close>

datatype jsval = JUndefined | JNull | JBool bool | JNum jsnum | JStr string

text \<open>\<open>!v\<close> is \<open>\<not> truthy v\<close>.\<close>

fun truthy :: "jsval \<Rightarrow> bool" where
  "truthy JUndefined = False"
| "truthy JNull = False"
| "truthy (JBool b) = b"
| "truthy (JNum n) = (n \<noteq> NaN \<and> n \<noteq> Fin 0)"
| "truthy (JStr s) = (s \<noteq> [])"

subsection \<open>Strings to numbers\<close>

text \<open>
  \<open>StringToNumber\<close> of ECMA-262 on ASCII text: white space is trimmed, the empty string is
  0, then come \<open>Infinity\<close> with an optional sign, the signed decimal literals with optional
  fraction and exponent, and the unsigned binary, octal and hexadecimal integers; anything
  else is \<open>NaN\<close>.
\<close>

definition is_ws :: "char \<Rightarrow> bool" where
  "is_ws c = ((of_char c :: nat) \<in> {9, 10, 11, 12, 13, 32})"

definition trim :: "string \<Rightarrow> string" where
  "trim s = rev (dropWhile is_ws (rev (dropWhile is_ws s)))"

definition is_digit :: "char \<Rightarrow> bool" where
  "is_digit c = (48 \<le> (of_char c :: nat) \<and> (of_char c :: nat) \<le> 57)"

definition hex_value :: "char \<Rightarrow> nat option" where
  "hex_value c =
     (let n = (of_char c :: nat) in
      if 48 \<le> n \<and> n \<le> 57 then Some (n - 48)
      else if 97 \<le> n \<and> n \<le> 102 then Some (n - 87)
      else if 65 \<le> n \<and> n \<le> 70 then Some (n - 55)
      else None)"

definition is_radix_digit :: "nat \<Rightarrow> char \<Rightarrow> bool" where
  "is_radix_digit base c = (case hex_value c of None \<Rightarrow> False | Some d \<Rightarrow> d < base)"

definition digits_value :: "int \<Rightarrow> string \<Rightarrow> int" where
  "digits_value base ds =
     foldl (\<lambda>n c. base * n + (case hex_value c of None \<Rightarrow> 0 | Some d \<Rightarrow> int d)) 0 ds"

definition split_sign :: "string \<Rightarrow> rat \<times> string" where
  "split_sign s =
     (case s of
        [] \<Rightarrow> (1, [])
      | c # t \<Rightarrow> if c = CHR ''+'' then (1, t) else if c = CHR ''-'' then (- 1, t) else (1, s))"

text \<open>The exponent part: absent (scale 0), or \<open>e\<close>/\<open>E\<close>, an optional sign and at least one digit.\<close>

definition exponent_part :: "string \<Rightarrow> int option" where
  "exponent_part s =
     (case s of
        [] \<Rightarrow> Some 0
      | c # t \<Rightarrow>
          if c = CHR ''e'' \<or> c = CHR ''E'' then
            (let (sg, ds) = split_sign t in
             if ds \<noteq> [] \<and> list_all is_digit ds
             then Some (if sg < 0 then - digits_value 10 ds else digits_value 10 ds)
             else None)
          else None)"

definition scale10 :: "rat \<Rightarrow> int \<Rightarrow> rat" where
  "scale10 m e = (if 0 \<le> e then m * 10 ^ nat e else m / 10 ^ nat (- e))"

text \<open>An unsigned decimal literal: \<open>12\<close>, \<open>12.\<close>, \<open>12.5\<close>, \<open>.5\<close>, each with an optional exponent.\<close>

definition unsigned_decimal :: "string \<Rightarrow> rat option" where
  "unsigned_decimal s =
     (let ip = takeWhile is_digit s; r = dropWhile is_digit s;
          fp = (case r of [] \<Rightarrow> [] | c # t \<Rightarrow> if c = CHR ''.'' then takeWhile is_digit t else []);
          r2 = (case r of [] \<Rightarrow> [] | c # t \<Rightarrow> if c = CHR ''.'' then dropWhile is_digit t else r)
      in if ip = [] \<and> fp = [] then None
         else (case exponent_part r2 of
                 None \<Rightarrow> None
               | Some e \<Rightarrow>
                   Some (scale10 (of_int (digits_value 10 (ip @ fp)) / 10 ^ length fp) e)))"

definition radix_literal :: "string \<Rightarrow> int option" where
  "radix_literal s =
     (case s of
        c0 # c1 # ds \<Rightarrow>
          if c0 = CHR ''0'' \<and> ds \<noteq> [] then
            (if (c1 = CHR ''x'' \<or> c1 = CHR ''X'') \<and> list_all (is_radix_digit 16) ds
               then Some (digits_value 16 ds)
             else if (c1 = CHR ''o'' \<or> c1 = CHR ''O'') \<and> list_all (is_radix_digit 8) ds
               then Some (digits_value 8 ds)
             else if (c1 = CHR ''b'' \<or> c1 = CHR ''B'') \<and> list_all (is_radix_digit 2) ds
               then Some (digits_value 2 ds)
             else None)
          else None
      | _ \<Rightarrow> None)"

definition str_to_number :: "string \<Rightarrow> jsnum" where
  "str_to_number s =
     (let t = trim s in
      if t = [] then Fin 0
      else (case radix_literal t of
              Some n \<Rightarrow> Fin (of_int n)
            | None \<Rightarrow>
                (let (sg, u) = split_sign t in
                 if u = ''Infinity'' then (if sg < 0 then NInf else PInf)
                 else (case unsigned_decimal u of
                         None \<Rightarrow> NaN
                       | Some q \<Rightarrow> Fin (sg * q)))))"

fun to_number :: "jsval \<Rightarrow> jsnum" where
  "to_number JUndefined = NaN"
| "to_number JNull = Fin 0"
| "to_number (JBool b) = Fin (if b then 1 else 0)"
| "to_number (JNum n) = n"
| "to_number (JStr s) = str_to_number s"

subsection \<open>Numbers to strings\<close>

text \<open>
  \<open>Number::toString\<close> in radix 10 for the values the model holds: the plain decimal
  expansion. JavaScript switches to exponent notation at \<open>1e21\<close> and below \<open>1e-6\<close>, which
  is not reproduced; the expansion of a fraction stops after 20 places.
\<close>

definition digit_char :: "int \<Rightarrow> char" where
  "digit_char d = char_of (48 + d)"

function int_digits :: "int \<Rightarrow> string" where
  "int_digits n =
     (if n < 10 then [digit_char n] else int_digits (n div 10) @ [digit_char (n mod 10)])"
  by pat_completeness auto
termination
  by (relation "measure nat") auto

fun frac_digits :: "nat \<Rightarrow> rat \<Rightarrow> string" where
  "frac_digits 0 f = []"
| "frac_digits (Suc k) f =
     (if f = 0 then []
      else (let d = \<lfloor>f * 10\<rfloor> in digit_char d # frac_digits k (f * 10 - of_int d)))"

definition rat_to_string :: "rat \<Rightarrow> string" where
  "rat_to_string q =
     (let a = \<bar>q\<bar>; ip = \<lfloor>a\<rfloor>; f = a - of_int ip in
      (if q < 0 then ''-'' else []) @ int_digits ip
        @ (if f = 0 then [] else ''.'' @ frac_digits 20 f))"

fun number_to_string :: "jsnum \<Rightarrow> string" where
  "number_to_string (Fin q) = rat_to_string q"
| "number_to_string NaN = ''NaN''"
| "number_to_string PInf = ''Infinity''"
| "number_to_string NInf = ''-Infinity''"

fun to_string :: "jsval \<Rightarrow> string" where
  "to_string JUndefined = ''undefined''"
| "to_string JNull = ''null''"
| "to_string (JBool b) = (if b then ''true'' else ''false'')"
| "to_string (JNum n) = number_to_string n"
| "to_string (JStr s) = s"

subsection \<open>The operators the ledger code applies\<close>

fun is_str :: "jsval \<Rightarrow> bool" where
  "is_str (JStr s) = True"
| "is_str _ = False"

text \<open>\<open>a + b\<close>: concatenation as soon as one side is a string, numeric addition otherwise.\<close>

definition js_add :: "jsval \<Rightarrow> jsval \<Rightarrow> jsval" where
  "js_add a b =
     (if is_str a \<or> is_str b then JStr (to_string a @ to_string b)
      else JNum (num_add (to_number a) (to_number b)))"

definition js_sub :: "jsval \<Rightarrow> jsval \<Rightarrow> jsval" where
  "js_sub a b = JNum (num_sub (to_number a) (to_number b))"

text \<open>
  \<open>a < b\<close>: two strings are compared as strings, by code unit; in every other case both
  sides are converted to numbers.
\<close>

fun js_lt :: "jsval \<Rightarrow> jsval \<Rightarrow> bool" where
  "js_lt (JStr s) (JStr t) = (s < t)"
| "js_lt a b = num_lt (to_number a) (to_number b)"

definition js_gt :: "jsval \<Rightarrow> jsval \<Rightarrow> bool" where
  "js_gt a b = js_lt b a"

fun js_le :: "jsval \<Rightarrow> jsval \<Rightarrow> bool" where
  "js_le (JStr s) (JStr t) = (\<not> t < s)"
| "js_le a b = num_le (to_number a) (to_number b)"

section \<open>The Express server over SQLite (server/index.js)\<close>

subsection \<open>Tables\<close>

text \<open>
  The \<open>accounts\<close> and \<open>transactions\<close> tables, a row per list element in insertion order.
  A cell read back by the driver is a JavaScript value. \<open>created_at\<close> is the clock reading
  \<open>CURRENT_TIMESTAMP\<close> stored at insertion, in seconds. The \<open>users\<close> table is read by the
  authentication middleware only; the handlers see its row as \<open>req.user\<close>.
\<close>

record account =
  acc_id :: string
  acc_user_id :: string
  acc_balance :: jsval

record txn =
  tx_id :: string
  tx_account_id :: string
  tx_type :: string
  tx_amount :: jsval
  tx_description :: "string option"
  tx_created_at :: int

text \<open>
  The single connection \<open>db\<close> shared by all handlers: both tables, and the contents saved by
  \<open>BEGIN TRANSACTION\<close> while a transaction is open.
\<close>

record database =
  accounts :: "account list"
  transactions :: "txn list"
  open_txn :: "(account list \<times> txn list) option"

record user =
  user_id :: string
  user_role :: string

text \<open>
  The body of a request: \<open>type\<close> and \<open>amount\<close> are whatever JSON value the client sent;
  \<open>description\<close>, which the handler only stores, is absent or a string.
\<close>

record body =
  b_type :: jsval
  b_amount :: jsval
  b_description :: "string option"

text \<open>
  The awaited database calls of the handlers. Each may be rejected by the storage layer for
  reasons outside the program; \<open>fault\<close> names the call that is.
\<close>

datatype db_call = DbGet | DbAll | DbBegin | DbUpdate | DbInsert | DbCommit

record env =
  uuid :: string
  clock :: int
  fault :: "db_call option"

datatype response =
    Error nat string
  | Success string jsval
  | BalanceJson jsval
  | TransactionsJson "(string \<times> string \<times> jsval \<times> string option \<times> int) list"
  | NoResponse

subsection \<open>What SQLite stores\<close>

text \<open>
  A value bound to a column declared \<open>REAL\<close>: a number is stored as it is (\<open>NaN\<close> is stored as
  \<open>NULL\<close>), a boolean as 1 or 0, and a text that is a well-formed decimal literal is converted
  to the number it denotes; any other text stays text.
\<close>

definition sqlite_numeric :: "string \<Rightarrow> rat option" where
  "sqlite_numeric s =
     (let (sg, u) = split_sign (trim s) in map_option (\<lambda>q. sg * q) (unsigned_decimal u))"

fun real_affinity :: "jsval \<Rightarrow> jsval" where
  "real_affinity JUndefined = JNull"
| "real_affinity JNull = JNull"
| "real_affinity (JBool b) = JNum (Fin (if b then 1 else 0))"
| "real_affinity (JNum n) = (if n = NaN then JNull else JNum n)"
| "real_affinity (JStr s) = (case sqlite_numeric s of None \<Rightarrow> JStr s | Some q \<Rightarrow> JNum (Fin q))"

text \<open>\<open>db.get('SELECT * FROM accounts WHERE user_id = ?')\<close>: the first matching row, if any.\<close>

definition db_get_account :: "db_call option \<Rightarrow> database \<Rightarrow> string \<Rightarrow> account option option" where
  "db_get_account f db uid =
     (if f = Some DbGet then None else Some (find (\<lambda>a. acc_user_id a = uid) (accounts db)))"

definition db_begin :: "db_call option \<Rightarrow> database \<Rightarrow> database option" where
  "db_begin f db =
     (if f = Some DbBegin \<or> open_txn db \<noteq> None then None
      else Some (db\<lparr>open_txn := Some (accounts db, transactions db)\<rparr>))"

text \<open>\<open>UPDATE accounts SET balance = ? WHERE id = ?\<close>\<close>

definition db_update_balance :: "db_call option \<Rightarrow> database \<Rightarrow> jsval \<Rightarrow> string \<Rightarrow> database option" where
  "db_update_balance f db v aid =
     (if f = Some DbUpdate then None
      else Some (db\<lparr>accounts :=
             map (\<lambda>a. if acc_id a = aid then a\<lparr>acc_balance := real_affinity v\<rparr> else a)
               (accounts db)\<rparr>))"

text \<open>
  \<open>INSERT INTO transactions (id, account_id, type, amount, description)\<close>. The insertion is
  refused when the primary key is taken, when \<open>type\<close> fails its \<open>CHECK\<close> or when \<open>amount\<close>
  would be \<open>NULL\<close>.
\<close>

definition db_insert_transaction ::
  "db_call option \<Rightarrow> int \<Rightarrow> database \<Rightarrow> string \<Rightarrow> string \<Rightarrow> jsval \<Rightarrow> jsval \<Rightarrow> string option
     \<Rightarrow> database option" where
  "db_insert_transaction f now db tid aid ty amt descr =
     (if f = Some DbInsert \<or> tid \<in> set (map tx_id (transactions db))
         \<or> (ty \<noteq> JStr ''deposit'' \<and> ty \<noteq> JStr ''withdrawal'')
         \<or> real_affinity amt = JNull
      then None
      else Some (db\<lparr>transactions := transactions db @
             [\<lparr>tx_id = tid, tx_account_id = aid, tx_type = to_string ty,
               tx_amount = real_affinity amt, tx_description = descr, tx_created_at = now\<rparr>]\<rparr>))"

definition db_commit :: "db_call option \<Rightarrow> database \<Rightarrow> database option" where
  "db_commit f db =
     (if f = Some DbCommit \<or> open_txn db = None then None else Some (db\<lparr>open_txn := None\<rparr>))"

text \<open>\<open>ROLLBACK\<close> restores what \<open>BEGIN\<close> saved; without an open transaction it is an error.\<close>

definition db_rollback :: "database \<Rightarrow> database option" where
  "db_rollback db =
     (case open_txn db of
        None \<Rightarrow> None
      | Some (a, t) \<Rightarrow> Some \<lparr>accounts = a, transactions = t, open_txn = None\<rparr>)"

subsection \<open>Handlers\<close>

text \<open>
  The \<open>catch\<close> block of the transaction handler: \<open>ROLLBACK\<close>, then the 500 response. When the
  rollback itself is rejected the handler's promise rejects and no response is sent.
\<close>

definition catch_block :: "database \<Rightarrow> response \<times> database" where
  "catch_block db =
     (case db_rollback db of
        None \<Rightarrow> (NoResponse, db)
      | Some db' \<Rightarrow> (Error 500 ''Server error'', db'))"

text \<open>\<open>description || null\<close>\<close>

definition description_or_null :: "string option \<Rightarrow> string option" where
  "description_or_null d = (case d of None \<Rightarrow> None | Some s \<Rightarrow> if s = [] then None else Some s)"

text \<open>\<open>POST /api/account/transaction\<close>\<close>

definition post_transaction :: "env \<Rightarrow> database \<Rightarrow> user \<Rightarrow> body \<Rightarrow> response \<times> database" where
  "post_transaction e db u b =
     (if user_role u \<noteq> ''customer'' then (Error 403 ''Access denied'', db)
      else if \<not> truthy (b_type b) \<or> \<not> truthy (b_amount b) \<or> js_le (b_amount b) (JNum (Fin 0))
        then (Error 400 ''Invalid transaction data'', db)
      else if b_type b \<noteq> JStr ''deposit'' \<and> b_type b \<noteq> JStr ''withdrawal''
        then (Error 400 ''Invalid transaction type'', db)
      else (case db_get_account (fault e) db (user_id u) of
              None \<Rightarrow> catch_block db
            | Some None \<Rightarrow> (Error 404 ''Account not found'', db)
            | Some (Some account) \<Rightarrow>
                if b_type b = JStr ''withdrawal'' \<and> js_gt (b_amount b) (acc_balance account)
                  then (Error 400 ''Insufficient funds'', db)
                else
                  (let newBalance =
                         (if b_type b = JStr ''deposit''
                          then js_add (acc_balance account) (b_amount b)
                          else js_sub (acc_balance account) (b_amount b))
                   in case db_begin (fault e) db of
                        None \<Rightarrow> catch_block db
                      | Some db1 \<Rightarrow>
                     (case db_update_balance (fault e) db1 newBalance (acc_id account) of
                        None \<Rightarrow> catch_block db1
                      | Some db2 \<Rightarrow>
                     (case db_insert_transaction (fault e) (clock e) db2 (uuid e)
                             (acc_id account) (b_type b) (b_amount b)
                             (description_or_null (b_description b)) of
                        None \<Rightarrow> catch_block db2
                      | Some db3 \<Rightarrow>
                     (case db_commit (fault e) db3 of
                        None \<Rightarrow> catch_block db3
                      | Some db4 \<Rightarrow> (Success (uuid e) newBalance, db4)))))))"

text \<open>\<open>GET /api/account/balance\<close>\<close>

definition get_balance :: "db_call option \<Rightarrow> database \<Rightarrow> user \<Rightarrow> response" where
  "get_balance f db u =
     (if user_role u \<noteq> ''customer'' then Error 403 ''Access denied''
      else (case db_get_account f db (user_id u) of
              None \<Rightarrow> Error 500 ''Server error''
            | Some None \<Rightarrow> Error 404 ''Account not found''
            | Some (Some account) \<Rightarrow> BalanceJson (acc_balance account)))"

text \<open>
  \<open>SELECT id, type, amount, description, created_at as date FROM transactions
  WHERE account_id = ? ORDER BY created_at DESC\<close>. Rows with equal \<open>created_at\<close> come in an
  order SQL leaves open; the model keeps them in table order.
\<close>

definition tx_columns :: "txn \<Rightarrow> string \<times> string \<times> jsval \<times> string option \<times> int" where
  "tx_columns t = (tx_id t, tx_type t, tx_amount t, tx_description t, tx_created_at t)"

definition db_all_transactions :: "db_call option \<Rightarrow> database \<Rightarrow> string \<Rightarrow> txn list option" where
  "db_all_transactions f db aid =
     (if f = Some DbAll then None
      else Some (sort_key (\<lambda>t. - tx_created_at t)
                   (filter (\<lambda>t. tx_account_id t = aid) (transactions db))))"

text \<open>\<open>GET /api/account/transactions\<close>\<close>

definition get_transactions :: "db_call option \<Rightarrow> database \<Rightarrow> user \<Rightarrow> response" where
  "get_transactions f db u =
     (if user_role u \<noteq> ''customer'' then Error 403 ''Access denied''
      else (case db_get_account f db (user_id u) of
              None \<Rightarrow> Error 500 ''Server error''
            | Some None \<Rightarrow> Error 404 ''Account not found''
            | Some (Some account) \<Rightarrow>
                (case db_all_transactions f db (acc_id account) of
                   None \<Rightarrow> Error 500 ''Server error''
                 | Some rows \<Rightarrow> TransactionsJson (map tx_columns rows))))"

subsection \<open>Seeding\<close>

text \<open>
  \<open>seedInitialData\<close> runs once on an empty database. \<open>ids k\<close> is the result of the \<open>k\<close>-th
  call of \<open>uuidv4\<close>: call 0 makes the banker's id, and the \<open>k\<close>-th of the three customers
  takes the next three for the user, the account and the initial deposit.
\<close>

definition empty_database :: database where
  "empty_database = \<lparr>accounts = [], transactions = [], open_txn = None\<rparr>"

definition seed_customer :: "(nat \<Rightarrow> string) \<Rightarrow> int \<Rightarrow> nat \<Rightarrow> database \<Rightarrow> database" where
  "seed_customer ids now k db =
     (let customerId = ids (3 * k + 1); accountId = ids (3 * k + 2)
      in db\<lparr>accounts := accounts db @
               [\<lparr>acc_id = accountId, acc_user_id = customerId, acc_balance = JNum (Fin 5000)\<rparr>],
             transactions := transactions db @
               [\<lparr>tx_id = ids (3 * k + 3), tx_account_id = accountId, tx_type = ''deposit'',
                 tx_amount = JNum (Fin 5000), tx_description = Some ''Initial deposit'',
                 tx_created_at = now\<rparr>]\<rparr>)"

definition seedInitialData :: "(nat \<Rightarrow> string) \<Rightarrow> int \<Rightarrow> database \<Rightarrow> database" where
  "seedInitialData ids now db =
     seed_customer ids now 2 (seed_customer ids now 1 (seed_customer ids now 0 db))"

section \<open>The in-memory mock (services/bankerService.ts and the customer account service)\<close>

text \<open>
  The TypeScript types fix \<open>type\<close> to the two kinds and \<open>amount\<close>, \<open>balance\<close> to numbers. Dates
  are ISO timestamps, modelled by the milliseconds they denote.
\<close>

datatype kind = Deposit | Withdrawal

record transaction =
  t_id :: string
  t_type :: kind
  t_amount :: jsnum
  t_date :: int
  t_description :: "string option"

record customer =
  c_id :: string
  c_username :: string
  c_email :: string
  c_balance :: jsnum
  c_createdAt :: int
  c_transactions :: "transaction list"

text \<open>What a \<open>throw\<close> carries: an \<open>Error\<close> with its message, or the error object of a Supabase reply.\<close>

datatype thrown = ErrorMsg string | SupabaseError

text \<open>
  The exported array \<open>customers\<close> as the module creates it; \<open>ids k\<close> is the result of the
  \<open>k\<close>-th call of \<open>uuidv4\<close> and \<open>now\<close> the reading of \<open>Date.now()\<close>.
\<close>

definition day :: int where
  "day = 24 * 60 * 60 * 1000"

definition customers :: "(nat \<Rightarrow> string) \<Rightarrow> int \<Rightarrow> customer list" where
  "customers ids now =
     [\<lparr>c_id = ids 0, c_username = ''johndoe'', c_email = ''john.doe@example.com'',
        c_balance = Fin 5000, c_createdAt = now - 30 * day,
        c_transactions =
          [\<lparr>t_id = ids 1, t_type = Deposit, t_amount = Fin 2000, t_date = now - 7 * day,
             t_description = Some ''Initial deposit''\<rparr>,
           \<lparr>t_id = ids 2, t_type = Withdrawal, t_amount = Fin 500, t_date = now - 5 * day,
             t_description = Some ''ATM withdrawal''\<rparr>]\<rparr>,
      \<lparr>c_id = ids 3, c_username = ''janedoe'', c_email = ''jane.doe@example.com'',
        c_balance = Fin 7500, c_createdAt = now - 45 * day,
        c_transactions = []\<rparr>]"

text \<open>
  \<open>updateCustomerBalance\<close>: \<open>findIndex\<close> picks the first customer with the id; without one
  the call returns and changes nothing.
\<close>

fun updateCustomerBalance :: "customer list \<Rightarrow> string \<Rightarrow> jsnum \<Rightarrow> transaction \<Rightarrow> customer list" where
  "updateCustomerBalance [] cid newBalance t = []"
| "updateCustomerBalance (c # cs) cid newBalance t =
     (if c_id c = cid
      then c\<lparr>c_balance := newBalance, c_transactions := t # c_transactions c\<rparr> # cs
      else c # updateCustomerBalance cs cid newBalance t)"

text \<open>
  The state of the customer account service: the array \<open>customers\<close> it imports and mutates,
  and its constant \<open>DEMO_CUSTOMER_ID\<close>, which is \<open>customers[0].id\<close> read once when the module
  loads. The service functions take no customer id; they look the constant up in the array.
\<close>

record mock =
  mock_customers :: "customer list"
  DEMO_CUSTOMER_ID :: string

definition load_mock :: "(nat \<Rightarrow> string) \<Rightarrow> int \<Rightarrow> mock" where
  "load_mock ids now =
     \<lparr>mock_customers = customers ids now, DEMO_CUSTOMER_ID = c_id (hd (customers ids now))\<rparr>"

text \<open>\<open>getAccountBalance\<close> returns \<open>customer?.balance || 0\<close>.\<close>

definition getAccountBalance :: "mock \<Rightarrow> jsnum" where
  "getAccountBalance m =
     (case find (\<lambda>c. c_id c = DEMO_CUSTOMER_ID m) (mock_customers m) of
        None \<Rightarrow> Fin 0
      | Some c \<Rightarrow> if truthy (JNum (c_balance c)) then c_balance c else Fin 0)"

text \<open>\<open>getTransactions\<close> of the mock returns \<open>customer?.transactions || []\<close>.\<close>

definition getTransactions_mock :: "mock \<Rightarrow> transaction list" where
  "getTransactions_mock m =
     (case find (\<lambda>c. c_id c = DEMO_CUSTOMER_ID m) (mock_customers m) of
        None \<Rightarrow> []
      | Some c \<Rightarrow> c_transactions c)"

text \<open>
  \<open>getRecentTransactions\<close> sorts the customer's own array, newest first, and returns
  \<open>slice(0, limit)\<close> of it. \<open>Array.prototype.sort\<close> is stable and works in place, so the
  array in the store is reordered; \<open>limit\<close> is taken as an integer.
\<close>

fun sort_transactions :: "customer list \<Rightarrow> string \<Rightarrow> customer list" where
  "sort_transactions [] cid = []"
| "sort_transactions (c # cs) cid =
     (if c_id c = cid
      then c\<lparr>c_transactions := sort_key (\<lambda>t. - t_date t) (c_transactions c)\<rparr> # cs
      else c # sort_transactions cs cid)"

definition slice_from_start :: "int \<Rightarrow> 'a list \<Rightarrow> 'a list" where
  "slice_from_start limit xs =
     (if limit < 0 then take (nat (int (length xs) + limit)) xs else take (nat limit) xs)"

definition getRecentTransactions :: "mock \<Rightarrow> int \<Rightarrow> transaction list \<times> mock" where
  "getRecentTransactions m limit =
     (case find (\<lambda>c. c_id c = DEMO_CUSTOMER_ID m) (mock_customers m) of
        None \<Rightarrow> ([], m)
      | Some c \<Rightarrow>
          (slice_from_start limit (sort_key (\<lambda>t. - t_date t) (c_transactions c)),
           m\<lparr>mock_customers := sort_transactions (mock_customers m) (DEMO_CUSTOMER_ID m)\<rparr>))"

text \<open>The parameter object of \<open>makeTransaction\<close>.\<close>

record params =
  p_type :: kind
  p_amount :: jsnum
  p_description :: "string option"

text \<open>
  \<open>makeTransaction\<close>, after its initial delay. The result is what the promise settles with,
  \<open>Inr (transactionId, newBalance)\<close> on success, and the state afterwards.
\<close>

definition makeTransaction ::
  "string \<Rightarrow> int \<Rightarrow> mock \<Rightarrow> params \<Rightarrow> (thrown + string \<times> jsnum) \<times> mock" where
  "makeTransaction new_id now m p =
     (case find (\<lambda>c. c_id c = DEMO_CUSTOMER_ID m) (mock_customers m) of
        None \<Rightarrow> (Inl (ErrorMsg ''Customer not found''), m)
      | Some c \<Rightarrow>
          if p_type p = Withdrawal \<and> num_lt (c_balance c) (p_amount p)
            then (Inl (ErrorMsg ''Insufficient funds''), m)
          else
            (let newBalance =
                   (if p_type p = Deposit then num_add (c_balance c) (p_amount p)
                    else num_sub (c_balance c) (p_amount p));
                 t = \<lparr>t_id = new_id, t_type = p_type p, t_amount = p_amount p, t_date = now,
                       t_description = p_description p\<rparr>
             in (Inr (new_id, newBalance),
                 m\<lparr>mock_customers :=
                     updateCustomerBalance (mock_customers m) (DEMO_CUSTOMER_ID m) newBalance t\<rparr>)))"

text \<open>
  The states the service can be in: the state at load, and whatever the two functions that
  write to the array make of a state that can be reached.
\<close>

inductive reachable :: "(nat \<Rightarrow> string) \<Rightarrow> int \<Rightarrow> mock \<Rightarrow> bool" for ids :: "nat \<Rightarrow> string" and t0 :: int where
  loaded: "reachable ids t0 (load_mock ids t0)"
| after_makeTransaction:
    "reachable ids t0 m \<Longrightarrow> reachable ids t0 (snd (makeTransaction new_id now m p))"
| after_getRecentTransactions:
    "reachable ids t0 m \<Longrightarrow> reachable ids t0 (snd (getRecentTransactions m limit))"

section \<open>The Supabase client and its migration\<close>

text \<open>
  The \<open>transactions\<close> table of the migration. Its numeric columns are exact and \<open>NOT NULL\<close>;
  \<open>amount\<close> carries \<open>CHECK (amount > 0)\<close>. There is no balance column: the balance is read
  from the newest row.
\<close>

record sb_row =
  r_id :: string
  r_user_id :: string
  r_type :: kind
  r_amount :: rat
  r_description :: "string option"
  r_balance_after :: rat
  r_created_at :: int

text \<open>
  The SQL function \<open>get_current_balance\<close>: \<open>balance_after\<close> of the first row of the user in
  the order \<open>created_at DESC\<close>, and 0 when the user has no row. Rows with equal \<open>created_at\<close>
  are kept in table order.
\<close>

definition get_current_balance :: "sb_row list \<Rightarrow> string \<Rightarrow> rat" where
  "get_current_balance rows uid =
     (case sort_key (\<lambda>r. - r_created_at r) (filter (\<lambda>r. r_user_id r = uid) rows) of
        [] \<Rightarrow> 0
      | r # _ \<Rightarrow> r_balance_after r)"

text \<open>
  The requests of the client that the service may answer with an error: the balance query,
  the insertion and the listing.
\<close>

datatype sb_call = SbRpc | SbInsert | SbSelect

record sb_env =
  sb_uuid :: string
  sb_now :: int
  sb_fault :: "sb_call option"

text \<open>\<open>getCurrentBalance\<close>: throws the error of the reply, otherwise returns \<open>data || 0\<close>.\<close>

definition getCurrentBalance :: "sb_call option \<Rightarrow> sb_row list \<Rightarrow> string \<Rightarrow> thrown + jsnum" where
  "getCurrentBalance f rows uid =
     (if f = Some SbRpc then Inl SupabaseError
      else (let data = Fin (get_current_balance rows uid)
            in Inr (if truthy (JNum data) then data else Fin 0)))"

text \<open>
  \<open>getTransactions\<close> of the Supabase client: all rows the row-level policy lets the user see
  (the user's own), \<open>created_at\<close> descending.
\<close>

definition getTransactions_sb :: "sb_call option \<Rightarrow> sb_row list \<Rightarrow> string \<Rightarrow> thrown + sb_row list" where
  "getTransactions_sb f rows uid =
     (if f = Some SbSelect then Inl SupabaseError
      else Inr (sort_key (\<lambda>r. - r_created_at r) (filter (\<lambda>r. r_user_id r = uid) rows)))"

text \<open>
  The insertion request. A number that is not finite is sent as JSON \<open>null\<close> and violates
  \<open>NOT NULL\<close>; the other refusals are the \<open>CHECK\<close> on \<open>amount\<close> and a taken primary key. The
  database supplies \<open>id\<close> and \<open>created_at\<close>.
\<close>

definition sb_insert ::
  "sb_env \<Rightarrow> sb_row list \<Rightarrow> string \<Rightarrow> kind \<Rightarrow> jsnum \<Rightarrow> string option \<Rightarrow> jsnum \<Rightarrow> sb_row option" where
  "sb_insert e rows uid ty amount descr balance_after =
     (case (amount, balance_after) of
        (Fin a, Fin b) \<Rightarrow>
          if sb_fault e = Some SbInsert \<or> \<not> 0 < a \<or> sb_uuid e \<in> set (map r_id rows) then None
          else Some \<lparr>r_id = sb_uuid e, r_user_id = uid, r_type = ty, r_amount = a,
                      r_description = descr, r_balance_after = b, r_created_at = sb_now e\<rparr>
      | _ \<Rightarrow> None)"

text \<open>
  \<open>createTransaction\<close> from the point where \<open>await getCurrentBalance(user.id)\<close> has returned
  \<open>currentBalance\<close>: the new balance, the funds check, the insertion.
\<close>

definition createTransaction_insert ::
  "sb_env \<Rightarrow> sb_row list \<Rightarrow> string \<Rightarrow> kind \<Rightarrow> jsnum \<Rightarrow> string option \<Rightarrow> jsnum
     \<Rightarrow> (thrown + sb_row \<times> jsnum) \<times> sb_row list" where
  "createTransaction_insert e rows uid ty amount descr currentBalance =
     (let newBalance =
            (if ty = Deposit then num_add currentBalance amount
             else num_sub currentBalance amount)
      in if ty = Withdrawal \<and> num_lt currentBalance amount
           then (Inl (ErrorMsg ''Insufficient funds''), rows)
         else (case sb_insert e rows uid ty amount descr newBalance of
                 None \<Rightarrow> (Inl SupabaseError, rows)
               | Some row \<Rightarrow> (Inr (row, newBalance), rows @ [row])))"

text \<open>\<open>createTransaction\<close>; \<open>user\<close> is what \<open>supabase.auth.getUser()\<close> returned.\<close>

definition createTransaction ::
  "sb_env \<Rightarrow> sb_row list \<Rightarrow> string option \<Rightarrow> kind \<Rightarrow> jsnum \<Rightarrow> string option
     \<Rightarrow> (thrown + sb_row \<times> jsnum) \<times> sb_row list" where
  "createTransaction e rows user ty amount descr =
     (case user of
        None \<Rightarrow> (Inl (ErrorMsg ''Not authenticated''), rows)
      | Some uid \<Rightarrow>
          (case getCurrentBalance (sb_fault e) rows uid of
             Inl err \<Rightarrow> (Inl err, rows)
           | Inr currentBalance \<Rightarrow>
               createTransaction_insert e rows uid ty amount descr currentBalance))"

subsection \<open>Calls in flight together\<close>

text \<open>
  \<open>createTransaction\<close> awaits two requests that touch the table: the balance query and the
  insertion. Between them the caller is suspended and any other call may run. A call is
  therefore at one of three points, and a step takes it to the next; the database executes
  each request of a step at once.
\<close>

datatype call_state = Started | HaveBalance jsnum | Settled "thrown + sb_row \<times> jsnum"

record call =
  call_user :: string
  call_type :: kind
  call_amount :: jsnum
  call_description :: "string option"

definition call_step :: "sb_env \<Rightarrow> call \<Rightarrow> call_state \<Rightarrow> sb_row list \<Rightarrow> call_state \<times> sb_row list" where
  "call_step e c st rows =
     (case st of
        Started \<Rightarrow>
          (case getCurrentBalance (sb_fault e) rows (call_user c) of
             Inl err \<Rightarrow> (Settled (Inl err), rows)
           | Inr currentBalance \<Rightarrow> (HaveBalance currentBalance, rows))
      | HaveBalance currentBalance \<Rightarrow>
          (let (res, rows') =
                 createTransaction_insert e rows (call_user c) (call_type c) (call_amount c)
                   (call_description c) currentBalance
           in (Settled res, rows'))
      | Settled r \<Rightarrow> (Settled r, rows))"

text \<open>
  Two calls and a schedule: the list says whose step comes next, with the identifier and
  clock reading the database would use for it.
\<close>

datatype turn = First | Second

fun run_two ::
  "call \<Rightarrow> call \<Rightarrow> (turn \<times> sb_env) list \<Rightarrow> call_state \<times> call_state \<times> sb_row list
     \<Rightarrow> call_state \<times> call_state \<times> sb_row list" where
  "run_two a b [] cfg = cfg"
| "run_two a b ((First, e) # sched) (sa, sb, rows) =
     (let (sa', rows') = call_step e a sa rows in run_two a b sched (sa', sb, rows'))"
| "run_two a b ((Second, e) # sched) (sa, sb, rows) =
     (let (sb', rows') = call_step e b sb rows in run_two a b sched (sa, sb', rows'))"

section \<open>Server requests in flight together\<close>

text \<open>
  The transaction handler awaits each of its database calls, and all requests share the one
  connection. A request is therefore at one of the points below, and a step runs it from one
  \<open>await\<close> to the next: the checks and the account query, \<open>BEGIN\<close>, \<open>UPDATE\<close>, \<open>INSERT\<close>,
  \<open>COMMIT\<close>, and the \<open>ROLLBACK\<close> of the \<open>catch\<close> block.
\<close>

datatype request_state =
    Received
  | HaveAccount account jsval
  | Begun account jsval
  | Updated account jsval
  | Inserted jsval
  | Caught
  | Responded response

definition request_step ::
  "env \<Rightarrow> user \<Rightarrow> body \<Rightarrow> request_state \<Rightarrow> database \<Rightarrow> request_state \<times> database" where
  "request_step e u b st db =
     (case st of
        Received \<Rightarrow>
          (if user_role u \<noteq> ''customer'' then (Responded (Error 403 ''Access denied''), db)
           else if \<not> truthy (b_type b) \<or> \<not> truthy (b_amount b) \<or> js_le (b_amount b) (JNum (Fin 0))
             then (Responded (Error 400 ''Invalid transaction data''), db)
           else if b_type b \<noteq> JStr ''deposit'' \<and> b_type b \<noteq> JStr ''withdrawal''
             then (Responded (Error 400 ''Invalid transaction type''), db)
           else (case db_get_account (fault e) db (user_id u) of
                   None \<Rightarrow> (Caught, db)
                 | Some None \<Rightarrow> (Responded (Error 404 ''Account not found''), db)
                 | Some (Some account) \<Rightarrow>
                     if b_type b = JStr ''withdrawal'' \<and> js_gt (b_amount b) (acc_balance account)
                       then (Responded (Error 400 ''Insufficient funds''), db)
                     else (HaveAccount account
                             (if b_type b = JStr ''deposit''
                              then js_add (acc_balance account) (b_amount b)
                              else js_sub (acc_balance account) (b_amount b)), db)))
      | HaveAccount account newBalance \<Rightarrow>
          (case db_begin (fault e) db of
             None \<Rightarrow> (Caught, db)
           | Some db1 \<Rightarrow> (Begun account newBalance, db1))
      | Begun account newBalance \<Rightarrow>
          (case db_update_balance (fault e) db newBalance (acc_id account) of
             None \<Rightarrow> (Caught, db)
           | Some db2 \<Rightarrow> (Updated account newBalance, db2))
      | Updated account newBalance \<Rightarrow>
          (case db_insert_transaction (fault e) (clock e) db (uuid e) (acc_id account)
                  (b_type b) (b_amount b) (description_or_null (b_description b)) of
             None \<Rightarrow> (Caught, db)
           | Some db3 \<Rightarrow> (Inserted newBalance, db3))
      | Inserted newBalance \<Rightarrow>
          (case db_commit (fault e) db of
             None \<Rightarrow> (Caught, db)
           | Some db4 \<Rightarrow> (Responded (Success (uuid e) newBalance), db4))
      | Caught \<Rightarrow> (Responded (fst (catch_block db)), snd (catch_block db))
      | Responded r \<Rightarrow> (Responded r, db))"

text \<open>One request run on its own for \<open>n\<close> steps.\<close>

fun request_run ::
  "env \<Rightarrow> user \<Rightarrow> body \<Rightarrow> nat \<Rightarrow> request_state \<times> database \<Rightarrow> request_state \<times> database" where
  "request_run e u b 0 cfg = cfg"
| "request_run e u b (Suc n) (st, db) =
     (let (st', db') = request_step e u b st db in request_run e u b n (st', db'))"

text \<open>Two requests and a schedule that says whose step comes next.\<close>

record request =
  rq_env :: env
  rq_user :: user
  rq_body :: body

fun run_requests ::
  "request \<Rightarrow> request \<Rightarrow> turn list \<Rightarrow> request_state \<times> request_state \<times> database
     \<Rightarrow> request_state \<times> request_state \<times> database" where
  "run_requests a b [] cfg = cfg"
| "run_requests a b (First # sched) (sa, sb, db) =
     (let (sa', db') = request_step (rq_env a) (rq_user a) (rq_body a) sa db
      in run_requests a b sched (sa', sb, db'))"
| "run_requests a b (Second # sched) (sa, sb, db) =
     (let (sb', db') = request_step (rq_env b) (rq_user b) (rq_body b) sb db
      in run_requests a b sched (sa, sb', db'))"

section \<open>Ledger quantities\<close>

text \<open>
  The totals of a customer's deposits and withdrawals, accumulated as \<open>getBankStats\<close> does,
  and the balance identity of one customer of the mock.
\<close>

definition totalDeposits :: "transaction list \<Rightarrow> jsnum" where
  "totalDeposits ts = foldl num_add (Fin 0) (map t_amount (filter (\<lambda>t. t_type t = Deposit) ts))"

definition totalWithdrawals :: "transaction list \<Rightarrow> jsnum" where
  "totalWithdrawals ts = foldl num_add (Fin 0) (map t_amount (filter (\<lambda>t. t_type t \<noteq> Deposit) ts))"

definition balance_identity :: "customer \<Rightarrow> bool" where
  "balance_identity c =
     (c_balance c = num_sub (totalDeposits (c_transactions c)) (totalWithdrawals (c_transactions c)))"

text \<open>
  The same identity for an account row of the server: the deposits of the account minus its
  withdrawals are a finite number, and the stored balance is that number.
\<close>

definition sum_amounts :: "database \<Rightarrow> string \<Rightarrow> string \<Rightarrow> jsnum" where
  "sum_amounts db aid ty =
     foldl num_add (Fin 0)
       (map (\<lambda>t. to_number (tx_amount t))
          (filter (\<lambda>t. tx_account_id t = aid \<and> tx_type t = ty) (transactions db)))"

fun is_fin :: "jsnum \<Rightarrow> bool" where
  "is_fin (Fin q) = True"
| "is_fin _ = False"

definition net_amount :: "database \<Rightarrow> string \<Rightarrow> jsnum" where
  "net_amount db aid = num_sub (sum_amounts db aid ''deposit'') (sum_amounts db aid ''withdrawal'')"

definition server_balance_identity :: "database \<Rightarrow> account \<Rightarrow> bool" where
  "server_balance_identity db a =
     (is_fin (net_amount db (acc_id a)) \<and> acc_balance a = JNum (net_amount db (acc_id a)))"

text \<open>Identifiers and requests used to run the definitions on concrete data.\<close>

definition example_ids :: "nat \<Rightarrow> string" where
  "example_ids k = ''id-'' @ int_digits (int k)"

definition seeded :: database where
  "seeded = seedInitialData example_ids 0 empty_database"

definition john :: user where
  "john = \<lparr>user_id = ''id-1'', user_role = ''customer''\<rparr>"

definition request :: "string \<Rightarrow> jsval \<Rightarrow> body" where
  "request ty amount = \<lparr>b_type = JStr ty, b_amount = amount, b_description = None\<rparr>"

definition at_time :: "string \<Rightarrow> int \<Rightarrow> env" where
  "at_time tid now = \<lparr>uuid = tid, clock = now, fault = None\<rparr>"

definition sb_at_time :: "string \<Rightarrow> int \<Rightarrow> sb_env" where
  "sb_at_time tid now = \<lparr>sb_uuid = tid, sb_now = now, sb_fault = None\<rparr>"

definition opening_row :: sb_row where
  "opening_row =
     \<lparr>r_id = ''t0'', r_user_id = ''u'', r_type = Deposit, r_amount = 6500,
       r_description = None, r_balance_after = 6500, r_created_at = 0\<rparr>"

definition withdraw_4000 :: call where
  "withdraw_4000 =
     \<lparr>call_user = ''u'', call_type = Withdrawal, call_amount = Fin 4000, call_description = None\<rparr>"

text \<open>A withdrawal of 4000 by the first seeded customer.\<close>

definition withdrawal_request :: "string \<Rightarrow> int \<Rightarrow> request" where
  "withdrawal_request tid now =
     \<lparr>rq_env = at_time tid now, rq_user = john,
       rq_body = request ''withdrawal'' (JNum (Fin 4000))\<rparr>"

text \<open>The row a withdrawal of 4000 from 6500 inserts.\<close>

definition withdrawal_row :: "string \<Rightarrow> int \<Rightarrow> sb_row" where
  "withdrawal_row tid now =
     \<lparr>r_id = tid, r_user_id = ''u'', r_type = Withdrawal, r_amount = 4000,
       r_description = None, r_balance_after = 2500, r_created_at = now\<rparr>"

text \<open>The seeded server database and the mock store, each after one deposit.\<close>

definition after_deposit :: database where
  "after_deposit =
     snd (post_transaction (at_time ''t9'' 5) seeded john (request ''deposit'' (JNum (Fin 2000))))"

definition mock_after_deposit :: mock where
  "mock_after_deposit =
     snd (makeTransaction ''n'' (10 * day + 1000) (load_mock example_ids (10 * day))
            \<lparr>p_type = Deposit, p_amount = Fin 100, p_description = None\<rparr>)"

text \<open>
  A deposit whose amount arrives as the JSON string \<open>"5"\<close>, sent by the first seeded
  customer, and a deposit of \<open>NaN\<close> made through the mock service right after it was loaded.
\<close>

definition text_deposit :: "response \<times> database" where
  "text_deposit =
     post_transaction (at_time ''t9'' 5) seeded john (request ''deposit'' (JStr ''5''))"

definition nan_deposit :: "(thrown + string \<times> jsnum) \<times> mock" where
  "nan_deposit =
     makeTransaction ''n'' 9 (load_mock example_ids 0)
       \<lparr>p_type = Deposit, p_amount = NaN, p_description = None\<rparr>"

text \<open>The \<open>date\<close> column of a transaction listing.\<close>

fun dates_of :: "response \<Rightarrow> int list" where
  "dates_of (TransactionsJson rows) = map (\<lambda>(i, ty, amount, descr, date). date) rows"
| "dates_of _ = []"

text \<open>A response that reports success.\<close>

fun is_success :: "response \<Rightarrow> bool" where
  "is_success (Success tid nb) = True"
| "is_success _ = False"

section \<open>Accepted transactions\<close>

lemma find_after_update:
  "find (\<lambda>a. acc_user_id a = uid) xs = Some acct \<Longrightarrow>
   find (\<lambda>a. acc_user_id a = uid)
     (map (\<lambda>a. if acc_id a = acc_id acct then a\<lparr>acc_balance := v\<rparr> else a) xs)
   = Some (acct\<lparr>acc_balance := v\<rparr>)"
  by (induction xs) (auto split: if_splits)

lemma post_transaction_success:
  assumes "post_transaction e db u b = (Success tid nb, db')"
  shows "\<exists>acct. find (\<lambda>a. acc_user_id a = user_id u) (accounts db) = Some acct
           \<and> user_role u = ''customer''
           \<and> (b_type b = JStr ''deposit'' \<or> b_type b = JStr ''withdrawal'')
           \<and> nb = (if b_type b = JStr ''deposit'' then js_add (acc_balance acct) (b_amount b)
                    else js_sub (acc_balance acct) (b_amount b))
           \<and> tid = uuid e
           \<and> accounts db' = map (\<lambda>a. if acc_id a = acc_id acct then a\<lparr>acc_balance := real_affinity nb\<rparr> else a) (accounts db)
           \<and> transactions db' = transactions db @
                [\<lparr>tx_id = tid, tx_account_id = acc_id acct, tx_type = to_string (b_type b),
                  tx_amount = real_affinity (b_amount b),
                  tx_description = description_or_null (b_description b),
                  tx_created_at = clock e\<rparr>]
           \<and> open_txn db = None \<and> open_txn db' = None"
  using assms
  unfolding post_transaction_def catch_block_def db_get_account_def db_begin_def db_update_balance_def
    db_insert_transaction_def db_commit_def db_rollback_def Let_def
  by (auto split: if_splits option.splits)

text \<open>
  An accepted request whose amount is a number, on a balance that is one: the balance
  written is their sum for a deposit and their difference for a withdrawal, taken exactly
  as in the first section; the response and the balance endpoint carry it, and the row
  inserted by the Supabase client records it as \<open>balance_after\<close>.
\<close>

lemma server_new_balance:
  assumes "post_transaction e db u b = (Success tid nb, db')"
    and "find (\<lambda>a. acc_user_id a = user_id u) (accounts db) = Some acct"
    and "acc_balance acct = JNum (Fin bal)" and "b_amount b = JNum (Fin amt)"
  shows "(b_type b = JStr ''deposit'' \<or> b_type b = JStr ''withdrawal'')
       \<and> nb = JNum (Fin (if b_type b = JStr ''deposit'' then bal + amt else bal - amt))
       \<and> find (\<lambda>a. acc_user_id a = user_id u) (accounts db') = Some (acct\<lparr>acc_balance := nb\<rparr>)
       \<and> get_balance None db' u = BalanceJson nb
       \<and> transactions db' = transactions db @
            [\<lparr>tx_id = tid, tx_account_id = acc_id acct, tx_type = to_string (b_type b),
              tx_amount = JNum (Fin amt),
              tx_description = description_or_null (b_description b),
              tx_created_at = clock e\<rparr>]"
proof -
  from post_transaction_success[OF assms(1)] assms(2)
  have role: "user_role u = ''customer''"
    and ty: "b_type b = JStr ''deposit'' \<or> b_type b = JStr ''withdrawal''"
    and nb: "nb = (if b_type b = JStr ''deposit'' then js_add (acc_balance acct) (b_amount b)
                    else js_sub (acc_balance acct) (b_amount b))"
    and acc: "accounts db' = map (\<lambda>a. if acc_id a = acc_id acct then a\<lparr>acc_balance := real_affinity nb\<rparr> else a) (accounts db)"
    and txs: "transactions db' = transactions db @
                [\<lparr>tx_id = tid, tx_account_id = acc_id acct, tx_type = to_string (b_type b),
                  tx_amount = real_affinity (b_amount b),
                  tx_description = description_or_null (b_description b),
                  tx_created_at = clock e\<rparr>]"
    by auto
  have nb': "nb = JNum (Fin (if b_type b = JStr ''deposit'' then bal + amt else bal - amt))"
    using nb assms(3,4) by (simp add: js_add_def js_sub_def num_sub_def)
  have aff: "real_affinity nb = nb" using nb' by simp
  have found: "find (\<lambda>a. acc_user_id a = user_id u) (accounts db') = Some (acct\<lparr>acc_balance := nb\<rparr>)"
    unfolding acc aff by (rule find_after_update[OF assms(2)])
  have "get_balance None db' u = BalanceJson nb"
    using found role by (simp add: get_balance_def db_get_account_def)
  with ty nb' found txs assms(4) show ?thesis by simp
qed

lemma supabase_new_balance:
  assumes "createTransaction se rows (Some uid) ty (Fin a) descr = (Inr (row, nb), rows')"
  shows "nb = Fin (if ty = Deposit then get_current_balance rows uid + a
                   else get_current_balance rows uid - a)
       \<and> Fin (r_balance_after row) = nb \<and> r_amount row = a \<and> r_type row = ty
       \<and> r_user_id row = uid \<and> rows' = rows @ [row]"
  using assms
  unfolding createTransaction_def createTransaction_insert_def getCurrentBalance_def sb_insert_def Let_def
  by (auto split: if_splits option.splits simp: num_sub_def)


text \<open>
  Claim C1 requires every accepted request to write the prior balance plus the amount for a
  deposit, and the result to carry that balance. The two lemmas above give this for a
  request whose amount is a number. The server accepts other amounts as well. The JSON
  string \<open>"5"\<close> passes the input check, being truthy and not \<open><= 0\<close>, and
  \<open>account.balance + amount\<close> on the number 5000 and the string \<open>5\<close> is the text
  \<open>50005\<close>. The response carries that text as \<open>newBalance\<close>; the \<open>UPDATE\<close> binds it to a
  column of \<open>REAL\<close> affinity, which stores the number 50005, and the balance endpoint
  returns 50005 from then on; the inserted row records an amount of 5. Prior balance plus
  amount is 5005.
\<close>

theorem text_amount_deposit_is_concatenated:
  "find (\<lambda>a. acc_user_id a = user_id john) (accounts seeded)
     = Some \<lparr>acc_id = ''id-2'', acc_user_id = ''id-1'', acc_balance = JNum (Fin 5000)\<rparr>
   \<and> fst text_deposit = Success ''t9'' (JStr ''50005'')
   \<and> find (\<lambda>a. acc_user_id a = user_id john) (accounts (snd text_deposit))
       = Some \<lparr>acc_id = ''id-2'', acc_user_id = ''id-1'', acc_balance = JNum (Fin 50005)\<rparr>
   \<and> get_balance None (snd text_deposit) john = BalanceJson (JNum (Fin 50005))
   \<and> transactions (snd text_deposit) = transactions seeded @
        [\<lparr>tx_id = ''t9'', tx_account_id = ''id-2'', tx_type = ''deposit'',
          tx_amount = JNum (Fin 5), tx_description = None, tx_created_at = 5\<rparr>]
   \<and> num_add (Fin 5000) (to_number (JStr ''5'')) = Fin 5005"
  by (intro conjI; code_simp)

text \<open>
  The same request, with the two tests of the input check that let it through and the
  addition that joins the balance and the amount as text.
\<close>

theorem text_amount_deposit_is_concatenated_witness:
  "truthy (JStr ''5'') \<and> \<not> js_le (JStr ''5'') (JNum (Fin 0))
   \<and> js_add (JNum (Fin 5000)) (JStr ''5'') = JStr ''50005''
   \<and> fst (post_transaction (at_time ''t9'' 5) seeded john (request ''deposit'' (JStr ''5'')))
       = Success ''t9'' (JStr ''50005'')"
proof -
  have a: "truthy (JStr ''5'')" by simp
  have b: "\<not> js_le (JStr ''5'') (JNum (Fin 0))" by code_simp
  have c: "js_add (JNum (Fin 5000)) (JStr ''5'') = JStr ''50005''" by code_simp
  have d: "fst text_deposit = Success ''t9'' (JStr ''50005'')"
    using text_amount_deposit_is_concatenated by blast
  from a b c d show ?thesis unfolding text_deposit_def by blast
qed

section \<open>Withdrawals beyond the balance\<close>

lemma server_insufficient_funds:
  assumes "user_role u = ''customer''" and "fault e \<noteq> Some DbGet"
    and "b_type b = JStr ''withdrawal''" and "b_amount b = JNum (Fin amt)" and "0 < amt"
    and "find (\<lambda>a. acc_user_id a = user_id u) (accounts db) = Some acct"
    and "acc_balance acct = JNum (Fin bal)" and "bal < amt"
  shows "post_transaction e db u b = (Error 400 ''Insufficient funds'', db)"
  using assms
  by (simp add: post_transaction_def db_get_account_def js_gt_def num_le_def)

lemma mock_insufficient_funds:
  assumes "find (\<lambda>c. c_id c = DEMO_CUSTOMER_ID m) (mock_customers m) = Some c"
    and "c_balance c = Fin cbal"
    and "p_type p = Withdrawal" and "p_amount p = Fin pamt" and "cbal < pamt"
  shows "makeTransaction new_id now m p = (Inl (ErrorMsg ''Insufficient funds''), m)"
  using assms by (simp add: makeTransaction_def)

text \<open>
  Claim C2. A withdrawal whose amount is strictly greater than the current balance fails
  with the insufficient-funds error and leaves the store as it was: balance and transaction
  history are unchanged. For the server the request is one that passed the input checks
  (a customer, a positive amount) and whose account query was answered; the mock has no
  such checks before the funds test.
\<close>

theorem withdrawal_over_balance_rejected:
  "(user_role u = ''customer'' \<and> fault e \<noteq> Some DbGet
      \<and> b_type b = JStr ''withdrawal'' \<and> b_amount b = JNum (Fin amt) \<and> 0 < amt
      \<and> find (\<lambda>a. acc_user_id a = user_id u) (accounts db) = Some acct
      \<and> acc_balance acct = JNum (Fin bal) \<and> bal < amt
    \<longrightarrow> post_transaction e db u b = (Error 400 ''Insufficient funds'', db))
   \<and> (find (\<lambda>c. c_id c = DEMO_CUSTOMER_ID m) (mock_customers m) = Some c
      \<and> c_balance c = Fin cbal
      \<and> p_type p = Withdrawal \<and> p_amount p = Fin pamt \<and> cbal < pamt
    \<longrightarrow> makeTransaction new_id now m p = (Inl (ErrorMsg ''Insufficient funds''), m))"
  using server_insufficient_funds[of u e b amt db acct bal]
    mock_insufficient_funds[of m c cbal p pamt new_id now]
  by blast

theorem withdrawal_over_balance_rejected_witness:
  "user_role john = ''customer'' \<and> fault (at_time ''t9'' 5) \<noteq> Some DbGet
   \<and> find (\<lambda>a. acc_user_id a = user_id john) (accounts seeded)
       = Some \<lparr>acc_id = ''id-2'', acc_user_id = ''id-1'', acc_balance = JNum (Fin 5000)\<rparr>
   \<and> (5000 :: rat) < 10000
   \<and> post_transaction (at_time ''t9'' 5) seeded john (request ''withdrawal'' (JNum (Fin 10000)))
       = (Error 400 ''Insufficient funds'', seeded)
   \<and> find (\<lambda>c. c_id c = DEMO_CUSTOMER_ID (load_mock example_ids 0))
        (mock_customers (load_mock example_ids 0))
       = Some (hd (customers example_ids 0))
   \<and> c_balance (hd (customers example_ids 0)) = Fin 5000
   \<and> makeTransaction ''n'' 9 (load_mock example_ids 0)
        \<lparr>p_type = Withdrawal, p_amount = Fin 10000, p_description = None\<rparr>
       = (Inl (ErrorMsg ''Insufficient funds''), load_mock example_ids 0)"
proof -
  have h1: "user_role john = ''customer''" "fault (at_time ''t9'' 5) \<noteq> Some DbGet"
    "b_type (request ''withdrawal'' (JNum (Fin 10000))) = JStr ''withdrawal''"
    "b_amount (request ''withdrawal'' (JNum (Fin 10000))) = JNum (Fin 10000)"
    by (simp_all add: john_def at_time_def request_def)
  have h2: "find (\<lambda>a. acc_user_id a = user_id john) (accounts seeded)
       = Some \<lparr>acc_id = ''id-2'', acc_user_id = ''id-1'', acc_balance = JNum (Fin 5000)\<rparr>"
    by code_simp
  have h3: "find (\<lambda>c. c_id c = DEMO_CUSTOMER_ID (load_mock example_ids 0))
        (mock_customers (load_mock example_ids 0))
       = Some (hd (customers example_ids 0))"
    "c_balance (hd (customers example_ids 0)) = Fin 5000"
    by code_simp+
  from withdrawal_over_balance_rejected[of john "at_time ''t9'' 5"
      "request ''withdrawal'' (JNum (Fin 10000))" 10000 seeded
      "\<lparr>acc_id = ''id-2'', acc_user_id = ''id-1'', acc_balance = JNum (Fin 5000)\<rparr>" 5000
      "load_mock example_ids 0" "hd (customers example_ids 0)" 5000
      "\<lparr>p_type = Withdrawal, p_amount = Fin 10000, p_description = None\<rparr>" 10000 "''n''" 9]
    h1 h2 h3
  show ?thesis by simp
qed

section \<open>Failed transactions\<close>

text \<open>
  A request to the server that does not succeed leaves the database as it was, and so does
  a call of the Supabase client that throws. A rejected write never ends in a success.
\<close>

lemma server_failure_unchanged:
  assumes "open_txn db = None" and "post_transaction e db u b = (r, db')" and "\<not> is_success r"
  shows "db' = db \<and> (fault e \<noteq> Some DbGet \<and> fault e \<noteq> Some DbBegin \<longrightarrow> (\<exists>code msg. r = Error code msg))"
  using assms
  unfolding post_transaction_def catch_block_def db_get_account_def db_begin_def db_update_balance_def
    db_insert_transaction_def db_commit_def db_rollback_def Let_def
  by (auto split: if_splits option.splits)

lemma supabase_failure_unchanged:
  assumes "createTransaction se rows user ty amount descr = (Inl err, rows')"
  shows "rows' = rows"
  using assms
  unfolding createTransaction_def createTransaction_insert_def Let_def
  by (auto split: if_splits option.splits sum.splits)

lemma server_write_fault_reported:
  assumes "open_txn db = None" and "fault e \<in> {Some DbBegin, Some DbUpdate, Some DbInsert, Some DbCommit}"
   and "post_transaction e db u b = (r, db')"
  shows "\<not> is_success r"
  using assms
  unfolding post_transaction_def catch_block_def db_get_account_def db_begin_def db_update_balance_def
    db_insert_transaction_def db_commit_def db_rollback_def Let_def
  by (auto split: if_splits option.splits)

text \<open>
  Once the input checks are passed, a rejected account query or a rejected \<open>BEGIN\<close> leaves
  the request of a customer without any response, whatever the database holds.
\<close>

lemma server_fault_before_write_unanswered:
  assumes "open_txn db = None" and "user_role u = ''customer''"
    and "b_type b = JStr ''deposit''" and "b_amount b = JNum (Fin amt)" and "0 < amt"
    and "find (\<lambda>a. acc_user_id a = user_id u) (accounts db) = Some acct"
    and "fault e = Some DbGet \<or> fault e = Some DbBegin"
  shows "post_transaction e db u b = (NoResponse, db)"
  using assms
  by (auto simp: post_transaction_def catch_block_def db_get_account_def db_begin_def
      db_rollback_def num_le_def Let_def)

text \<open>
  Claim C4 requires a failed request to leave the balance and the transactions as they
  were, and the failure to be reported to the caller. The state is left as it was, by the
  lemmas above. The report is missing when the storage layer rejects \<open>BEGIN TRANSACTION\<close>
  or the account query before it: the \<open>catch\<close> block first awaits \<open>ROLLBACK\<close>, no
  transaction is open, the rollback is rejected in its turn, and the statement that sends
  the 500 response is not reached. The handler's promise rejects and the caller receives
  no response. A rejected \<open>INSERT\<close>, where a transaction is open, is rolled back and
  answered with the 500 error.
\<close>

theorem rejected_begin_is_not_reported:
  "open_txn seeded = None
   \<and> post_transaction (at_time ''t9'' 5\<lparr>fault := Some DbBegin\<rparr>) seeded john
        (request ''deposit'' (JNum (Fin 2000)))
       = (NoResponse, seeded)
   \<and> post_transaction (at_time ''t9'' 5\<lparr>fault := Some DbGet\<rparr>) seeded john
        (request ''deposit'' (JNum (Fin 2000)))
       = (NoResponse, seeded)
   \<and> post_transaction (at_time ''t9'' 5\<lparr>fault := Some DbInsert\<rparr>) seeded john
        (request ''deposit'' (JNum (Fin 2000)))
       = (Error 500 ''Server error'', seeded)"
  by (intro conjI; code_simp)

text \<open>
  The rejected \<open>BEGIN\<close> once more, with the rollback of the \<open>catch\<close> block that fails.
\<close>

theorem rejected_begin_is_not_reported_witness:
  "fault (at_time ''t9'' 5\<lparr>fault := Some DbBegin\<rparr>) = Some DbBegin
   \<and> db_begin (Some DbBegin) seeded = None
   \<and> db_rollback seeded = None
   \<and> catch_block seeded = (NoResponse, seeded)
   \<and> post_transaction (at_time ''t9'' 5\<lparr>fault := Some DbBegin\<rparr>) seeded john
        (request ''deposit'' (JNum (Fin 2000)))
       = (NoResponse, seeded)"
proof -
  have a: "fault (at_time ''t9'' 5\<lparr>fault := Some DbBegin\<rparr>) = Some DbBegin" by simp
  have b: "db_begin (Some DbBegin) seeded = None" by (simp add: db_begin_def)
  have c: "db_rollback seeded = None" by code_simp
  have d: "catch_block seeded = (NoResponse, seeded)" using c by (simp add: catch_block_def)
  have e: "post_transaction (at_time ''t9'' 5\<lparr>fault := Some DbBegin\<rparr>) seeded john
        (request ''deposit'' (JNum (Fin 2000)))
       = (NoResponse, seeded)"
    using rejected_begin_is_not_reported by blast
  from a b c d e show ?thesis by blast
qed

section \<open>The balance of the Supabase ledger\<close>

lemma newest_first_head:
  fixes f :: "'a \<Rightarrow> int"
  assumes "sort_key (\<lambda>x. - f x) xs = y # ys"
  shows "y \<in> set xs \<and> (\<forall>x \<in> set xs. f x \<le> f y)"
proof -
  have s: "sorted (map (\<lambda>x. - f x) (y # ys))"
    using sorted_sort_key[of "\<lambda>x. - f x" xs] assms by simp
  have m: "set (y # ys) = set xs"
    using set_sort[of "\<lambda>x. - f x" xs] assms by simp
  from s have "\<forall>x \<in> set ys. f x \<le> f y" by auto
  with m show ?thesis by auto
qed

lemma newest_first_empty:
  fixes f :: "'a \<Rightarrow> int"
  shows "sort_key (\<lambda>x. - f x) xs = [] \<longleftrightarrow> xs = []"
  using set_sort[of "\<lambda>x. - f x" xs] by (metis set_empty)

lemma get_current_balance_latest:
  assumes "filter (\<lambda>r. r_user_id r = uid) rows \<noteq> []"
  shows "\<exists>r \<in> set rows. r_user_id r = uid
           \<and> (\<forall>r' \<in> set rows. r_user_id r' = uid \<longrightarrow> r_created_at r' \<le> r_created_at r)
           \<and> get_current_balance rows uid = r_balance_after r"
proof -
  let ?own = "filter (\<lambda>r. r_user_id r = uid) rows"
  obtain y ys where ys: "sort_key (\<lambda>r. - r_created_at r) ?own = y # ys"
    using assms newest_first_empty[of r_created_at ?own] by (cases "sort_key (\<lambda>r. - r_created_at r) ?own") auto
  from newest_first_head[OF ys]
  have "y \<in> set ?own" and "\<forall>x \<in> set ?own. r_created_at x \<le> r_created_at y" by auto
  moreover have "get_current_balance rows uid = r_balance_after y"
    using ys by (simp add: get_current_balance_def)
  ultimately show ?thesis by auto
qed

lemma get_current_balance_none:
  assumes "filter (\<lambda>r. r_user_id r = uid) rows = []"
  shows "get_current_balance rows uid = 0"
  using assms by (simp add: get_current_balance_def)

lemma getCurrentBalance_value:
  "getCurrentBalance None rows uid = Inr (Fin (get_current_balance rows uid))"
  by (simp add: getCurrentBalance_def Let_def)

text \<open>
  Claim C6. In every state of the table, the current balance of a user is the
  \<open>balance_after\<close> of a row of that user whose \<open>created_at\<close> no other row of the user
  exceeds, and it is 0 when the user has no row. After an accepted \<open>createTransaction\<close>
  stamped later than the user's earlier rows, the current balance is the \<open>balance_after\<close>
  of the row just inserted, which is the returned \<open>newBalance\<close>.
\<close>

theorem current_balance_is_latest_balance_after:
  "(filter (\<lambda>r. r_user_id r = uid) rows = [] \<longrightarrow> getCurrentBalance None rows uid = Inr (Fin 0))
   \<and> (filter (\<lambda>r. r_user_id r = uid) rows \<noteq> [] \<longrightarrow>
        (\<exists>r \<in> set rows. r_user_id r = uid
           \<and> (\<forall>r' \<in> set rows. r_user_id r' = uid \<longrightarrow> r_created_at r' \<le> r_created_at r)
           \<and> getCurrentBalance None rows uid = Inr (Fin (r_balance_after r))))
   \<and> (createTransaction se rows (Some uid) ty amount descr = (Inr (row, nb), rows')
        \<and> (\<forall>r \<in> set rows. r_user_id r = uid \<longrightarrow> r_created_at r < sb_now se)
      \<longrightarrow> getCurrentBalance None rows' uid = Inr nb \<and> nb = Fin (r_balance_after row))"
proof -
  have none: "getCurrentBalance None rows uid = Inr (Fin 0)"
    if "filter (\<lambda>r. r_user_id r = uid) rows = []"
    using that by (simp add: getCurrentBalance_value get_current_balance_none)
  have some: "\<exists>r \<in> set rows. r_user_id r = uid
           \<and> (\<forall>r' \<in> set rows. r_user_id r' = uid \<longrightarrow> r_created_at r' \<le> r_created_at r)
           \<and> getCurrentBalance None rows uid = Inr (Fin (r_balance_after r))"
    if "filter (\<lambda>r. r_user_id r = uid) rows \<noteq> []"
    using get_current_balance_latest[OF that] by (simp add: getCurrentBalance_value)
  have new: "getCurrentBalance None rows' uid = Inr nb \<and> nb = Fin (r_balance_after row)"
    if a: "createTransaction se rows (Some uid) ty amount descr = (Inr (row, nb), rows')"
      and later: "\<forall>r \<in> set rows. r_user_id r = uid \<longrightarrow> r_created_at r < sb_now se"
  proof -
    from a have row: "rows' = rows @ [row]" "r_user_id row = uid" "r_created_at row = sb_now se"
      "nb = Fin (r_balance_after row)"
      unfolding createTransaction_def createTransaction_insert_def getCurrentBalance_def
        sb_insert_def Let_def
      by (auto split: if_splits option.splits jsnum.splits)
    have "filter (\<lambda>r. r_user_id r = uid) rows' \<noteq> []" using row by simp
    from get_current_balance_latest[OF this]
    obtain r where r: "r \<in> set rows'" "r_user_id r = uid"
      "\<forall>r' \<in> set rows'. r_user_id r' = uid \<longrightarrow> r_created_at r' \<le> r_created_at r"
      "get_current_balance rows' uid = r_balance_after r" by blast
    have "r = row"
    proof (rule ccontr)
      assume "r \<noteq> row"
      with r(1) row(1) have "r \<in> set rows" by auto
      with later r(2) have "r_created_at r < sb_now se" by blast
      moreover from r(3) row have "sb_now se \<le> r_created_at r" by auto
      ultimately show False by simp
    qed
    with r(4) row(4) show ?thesis by (simp add: getCurrentBalance_value)
  qed
  from none some new show ?thesis by blast
qed

theorem current_balance_is_latest_balance_after_witness:
  "filter (\<lambda>r. r_user_id r = ''nobody'') [opening_row] = []
   \<and> getCurrentBalance None [opening_row] ''nobody'' = Inr (Fin 0)
   \<and> filter (\<lambda>r. r_user_id r = ''u'') [opening_row] \<noteq> []
   \<and> getCurrentBalance None [opening_row] ''u'' = Inr (Fin 6500)
   \<and> createTransaction (sb_at_time ''t1'' 1) [opening_row] (Some ''u'') Withdrawal (Fin 500) None
       = (Inr (\<lparr>r_id = ''t1'', r_user_id = ''u'', r_type = Withdrawal, r_amount = 500,
                 r_description = None, r_balance_after = 6000, r_created_at = 1\<rparr>, Fin 6000),
          [opening_row,
           \<lparr>r_id = ''t1'', r_user_id = ''u'', r_type = Withdrawal, r_amount = 500,
             r_description = None, r_balance_after = 6000, r_created_at = 1\<rparr>])
   \<and> r_created_at opening_row < sb_now (sb_at_time ''t1'' 1)
   \<and> getCurrentBalance None
        [opening_row,
           \<lparr>r_id = ''t1'', r_user_id = ''u'', r_type = Withdrawal, r_amount = 500,
             r_description = None, r_balance_after = 6000, r_created_at = 1\<rparr>] ''u'' = Inr (Fin 6000)"
proof -
  have h1: "filter (\<lambda>r. r_user_id r = ''nobody'') [opening_row] = []"
    "filter (\<lambda>r. r_user_id r = ''u'') [opening_row] \<noteq> []"
    by (simp_all add: opening_row_def)
  have h2: "createTransaction (sb_at_time ''t1'' 1) [opening_row] (Some ''u'') Withdrawal (Fin 500) None
       = (Inr (\<lparr>r_id = ''t1'', r_user_id = ''u'', r_type = Withdrawal, r_amount = 500,
                 r_description = None, r_balance_after = 6000, r_created_at = 1\<rparr>, Fin 6000),
          [opening_row,
           \<lparr>r_id = ''t1'', r_user_id = ''u'', r_type = Withdrawal, r_amount = 500,
             r_description = None, r_balance_after = 6000, r_created_at = 1\<rparr>])"
    by code_simp
  have h3: "\<forall>r \<in> set [opening_row]. r_user_id r = ''u'' \<longrightarrow> r_created_at r < sb_now (sb_at_time ''t1'' 1)"
    by (simp add: opening_row_def sb_at_time_def)
  have h4: "r_balance_after opening_row = 6500" by (simp add: opening_row_def)
  note t1 = current_balance_is_latest_balance_after[of "''nobody''" "[opening_row]"]
  note t2 = current_balance_is_latest_balance_after[of "''u''" "[opening_row]" "sb_at_time ''t1'' 1"
      Withdrawal "Fin 500" None
      "\<lparr>r_id = ''t1'', r_user_id = ''u'', r_type = Withdrawal, r_amount = 500,
                 r_description = None, r_balance_after = 6000, r_created_at = 1\<rparr>" "Fin 6000"
      "[opening_row,
           \<lparr>r_id = ''t1'', r_user_id = ''u'', r_type = Withdrawal, r_amount = 500,
             r_description = None, r_balance_after = 6000, r_created_at = 1\<rparr>]"]
  have w1: "getCurrentBalance None [opening_row] ''nobody'' = Inr (Fin 0)"
    using t1[THEN conjunct1] h1(1) by (rule mp)
  have "\<exists>r \<in> set [opening_row]. r_user_id r = ''u''
           \<and> (\<forall>r' \<in> set [opening_row]. r_user_id r' = ''u'' \<longrightarrow> r_created_at r' \<le> r_created_at r)
           \<and> getCurrentBalance None [opening_row] ''u'' = Inr (Fin (r_balance_after r))"
    using t2[THEN conjunct2, THEN conjunct1] h1(2) by (rule mp)
  then have w2: "getCurrentBalance None [opening_row] ''u'' = Inr (Fin 6500)"
    using h4 by simp
  have w3: "getCurrentBalance None
        [opening_row,
           \<lparr>r_id = ''t1'', r_user_id = ''u'', r_type = Withdrawal, r_amount = 500,
             r_description = None, r_balance_after = 6000, r_created_at = 1\<rparr>] ''u'' = Inr (Fin 6000)"
    using t2[THEN conjunct2, THEN conjunct2] h2 h3 by blast
  have h5: "r_created_at opening_row < sb_now (sb_at_time ''t1'' 1)"
    by (simp add: opening_row_def sb_at_time_def)
  from h1 h2 h5 w1 w2 w3 show ?thesis by blast
qed

section \<open>Withdrawing the whole balance\<close>

lemma server_exact_withdrawal:
  assumes "user_role u = ''customer''" and "fault e = None" and "open_txn db = None"
    and "uuid e \<notin> set (map tx_id (transactions db))"
    and "b_type b = JStr ''withdrawal''" and "b_amount b = JNum (Fin amt)" and "0 < amt"
    and "find (\<lambda>a. acc_user_id a = user_id u) (accounts db) = Some acct"
    and "acc_balance acct = JNum (Fin amt)"
  shows "post_transaction e db u b =
      (Success (uuid e) (JNum (Fin 0)),
       db\<lparr>accounts := map (\<lambda>a. if acc_id a = acc_id acct then a\<lparr>acc_balance := JNum (Fin 0)\<rparr> else a)
                          (accounts db),
          transactions := transactions db @
            [\<lparr>tx_id = uuid e, tx_account_id = acc_id acct, tx_type = ''withdrawal'',
              tx_amount = JNum (Fin amt),
              tx_description = description_or_null (b_description b),
              tx_created_at = clock e\<rparr>],
          open_txn := None\<rparr>)
       \<and> find (\<lambda>a. acc_user_id a = user_id u) (accounts (snd (post_transaction e db u b)))
           = Some (acct\<lparr>acc_balance := JNum (Fin 0)\<rparr>)
       \<and> get_balance None (snd (post_transaction e db u b)) u = BalanceJson (JNum (Fin 0))"
proof -
  have "post_transaction e db u b =
      (Success (uuid e) (JNum (Fin 0)),
       db\<lparr>accounts := map (\<lambda>a. if acc_id a = acc_id acct then a\<lparr>acc_balance := JNum (Fin 0)\<rparr> else a)
                          (accounts db),
          transactions := transactions db @
            [\<lparr>tx_id = uuid e, tx_account_id = acc_id acct, tx_type = ''withdrawal'',
              tx_amount = JNum (Fin amt),
              tx_description = description_or_null (b_description b),
              tx_created_at = clock e\<rparr>],
          open_txn := None\<rparr>)"
    using assms
    by (simp add: post_transaction_def db_get_account_def js_gt_def num_le_def js_sub_def
        num_sub_def db_begin_def db_update_balance_def db_insert_transaction_def db_commit_def
        Let_def)
  then show ?thesis
    using find_after_update[OF assms(8), of "JNum (Fin 0)"] assms(1)
    by (simp add: get_balance_def db_get_account_def)
qed

lemma find_first_with_id:
  "\<forall>x \<in> set xs. c_id x \<noteq> cid \<Longrightarrow> c_id c = cid \<Longrightarrow>
   find (\<lambda>c. c_id c = cid) (xs @ c # ys) = Some c"
  by (induction xs) auto

lemma updateCustomerBalance_first_with_id:
  "\<forall>x \<in> set xs. c_id x \<noteq> cid \<Longrightarrow> c_id c = cid \<Longrightarrow>
   updateCustomerBalance (xs @ c # ys) cid nb t
     = xs @ c\<lparr>c_balance := nb, c_transactions := t # c_transactions c\<rparr> # ys"
  by (induction xs) auto

lemma mock_exact_withdrawal:
  assumes "mock_customers m = xs @ c # ys" and "\<forall>x \<in> set xs. c_id x \<noteq> DEMO_CUSTOMER_ID m"
    and "c_id c = DEMO_CUSTOMER_ID m" and "c_balance c = Fin amt"
    and "p_type p = Withdrawal" and "p_amount p = Fin amt"
  shows "makeTransaction new_id now m p =
      (Inr (new_id, Fin 0),
       m\<lparr>mock_customers :=
           xs @ c\<lparr>c_balance := Fin 0,
                   c_transactions :=
                     \<lparr>t_id = new_id, t_type = Withdrawal, t_amount = Fin amt, t_date = now,
                       t_description = p_description p\<rparr> # c_transactions c\<rparr> # ys\<rparr>)
       \<and> getAccountBalance (snd (makeTransaction new_id now m p)) = Fin 0"
proof -
  have f: "find (\<lambda>c. c_id c = DEMO_CUSTOMER_ID m) (mock_customers m) = Some c"
    using assms(1-3) by (simp add: find_first_with_id)
  have r: "makeTransaction new_id now m p =
      (Inr (new_id, Fin 0),
       m\<lparr>mock_customers :=
           xs @ c\<lparr>c_balance := Fin 0,
                   c_transactions :=
                     \<lparr>t_id = new_id, t_type = Withdrawal, t_amount = Fin amt, t_date = now,
                       t_description = p_description p\<rparr> # c_transactions c\<rparr> # ys\<rparr>)"
    using f assms
    by (simp add: makeTransaction_def num_sub_def Let_def updateCustomerBalance_first_with_id)
  have "getAccountBalance (snd (makeTransaction new_id now m p)) = Fin 0"
    unfolding r using assms(2,3)
    by (simp add: getAccountBalance_def find_first_with_id)
  with r show ?thesis by simp
qed

lemma supabase_exact_withdrawal:
  assumes "sb_fault se = None" and "sb_uuid se \<notin> set (map r_id rows)"
    and "get_current_balance rows uid = amt" and "0 < amt"
  shows "createTransaction se rows (Some uid) Withdrawal (Fin amt) descr =
      (Inr (\<lparr>r_id = sb_uuid se, r_user_id = uid, r_type = Withdrawal, r_amount = amt,
              r_description = descr, r_balance_after = 0, r_created_at = sb_now se\<rparr>, Fin 0),
       rows @ [\<lparr>r_id = sb_uuid se, r_user_id = uid, r_type = Withdrawal, r_amount = amt,
              r_description = descr, r_balance_after = 0, r_created_at = sb_now se\<rparr>])"
  using assms
  by (simp add: createTransaction_def getCurrentBalance_def createTransaction_insert_def
      sb_insert_def num_sub_def Let_def)

text \<open>
  The balance read after a row was appended whose \<open>created_at\<close> is later than that of every
  earlier row of the user is the \<open>balance_after\<close> of that row.
\<close>

lemma balance_after_later_row:
  assumes "r_user_id row = uid"
    and "\<forall>r \<in> set rows. r_user_id r = uid \<longrightarrow> r_created_at r < r_created_at row"
  shows "getCurrentBalance None (rows @ [row]) uid = Inr (Fin (r_balance_after row))"
proof -
  have "filter (\<lambda>r. r_user_id r = uid) (rows @ [row]) \<noteq> []" using assms(1) by simp
  from get_current_balance_latest[OF this]
  obtain r where r: "r \<in> set (rows @ [row])" "r_user_id r = uid"
    "\<forall>r' \<in> set (rows @ [row]). r_user_id r' = uid \<longrightarrow> r_created_at r' \<le> r_created_at r"
    "get_current_balance (rows @ [row]) uid = r_balance_after r" by blast
  have "r = row"
  proof (rule ccontr)
    assume "r \<noteq> row"
    with r(1) have "r \<in> set rows" by auto
    with assms(2) r(2) have "r_created_at r < r_created_at row" by blast
    moreover from r(3) assms(1) have "r_created_at row \<le> r_created_at r" by auto
    ultimately show False by simp
  qed
  with r(4) show ?thesis by (simp add: getCurrentBalance_value)
qed

lemma supabase_exact_withdrawal_read_back:
  assumes "\<forall>r \<in> set rows. r_user_id r = uid \<longrightarrow> r_created_at r < sb_now se"
  shows "getCurrentBalance None
      (rows @ [\<lparr>r_id = sb_uuid se, r_user_id = uid, r_type = Withdrawal, r_amount = amt,
              r_description = descr, r_balance_after = 0, r_created_at = sb_now se\<rparr>]) uid
     = Inr (Fin 0)"
  using balance_after_later_row[of
      "\<lparr>r_id = sb_uuid se, r_user_id = uid, r_type = Withdrawal, r_amount = amt,
              r_description = descr, r_balance_after = 0, r_created_at = sb_now se\<rparr>" uid rows]
    assms
  by simp

text \<open>
  Claim C10. A withdrawal whose amount equals the current balance is accepted, since the
  funds test is the strict comparison \<open>amount > balance\<close>, and it leaves the balance at
  exactly 0. Stated for the server handler, the mock \<open>makeTransaction\<close> and the Supabase
  \<open>createTransaction\<close>, each with its storage answering and a fresh identifier, and each
  with the store it leaves behind. On the server the account row of the user holds 0, the
  other rows are as before and one transaction is appended. In the mock the customer the
  service looks up, the first of the array with the id \<open>DEMO_CUSTOMER_ID\<close>, holds the
  balance 0 and the new transaction at the head of its list, and the rest of the array is
  as before. In the Supabase table one row with \<open>balance_after\<close> 0 is appended, and when
  its \<open>created_at\<close> is later than that of the user's earlier rows the balance read
  afterwards is 0.
\<close>

theorem withdrawal_of_whole_balance_accepted:
  "(user_role u = ''customer'' \<and> fault e = None \<and> open_txn db = None
      \<and> uuid e \<notin> set (map tx_id (transactions db))
      \<and> b_type b = JStr ''withdrawal'' \<and> b_amount b = JNum (Fin amt) \<and> 0 < amt
      \<and> find (\<lambda>a. acc_user_id a = user_id u) (accounts db) = Some acct
      \<and> acc_balance acct = JNum (Fin amt)
    \<longrightarrow> post_transaction e db u b =
        (Success (uuid e) (JNum (Fin 0)),
         db\<lparr>accounts := map (\<lambda>a. if acc_id a = acc_id acct then a\<lparr>acc_balance := JNum (Fin 0)\<rparr> else a)
                            (accounts db),
            transactions := transactions db @
              [\<lparr>tx_id = uuid e, tx_account_id = acc_id acct, tx_type = ''withdrawal'',
                tx_amount = JNum (Fin amt),
                tx_description = description_or_null (b_description b),
                tx_created_at = clock e\<rparr>],
            open_txn := None\<rparr>)
      \<and> find (\<lambda>a. acc_user_id a = user_id u) (accounts (snd (post_transaction e db u b)))
          = Some (acct\<lparr>acc_balance := JNum (Fin 0)\<rparr>)
      \<and> get_balance None (snd (post_transaction e db u b)) u = BalanceJson (JNum (Fin 0)))
   \<and> (mock_customers m = xs @ c # ys \<and> (\<forall>x \<in> set xs. c_id x \<noteq> DEMO_CUSTOMER_ID m)
      \<and> c_id c = DEMO_CUSTOMER_ID m \<and> c_balance c = Fin camt
      \<and> p_type p = Withdrawal \<and> p_amount p = Fin camt
    \<longrightarrow> makeTransaction new_id now m p =
        (Inr (new_id, Fin 0),
         m\<lparr>mock_customers :=
             xs @ c\<lparr>c_balance := Fin 0,
                     c_transactions :=
                       \<lparr>t_id = new_id, t_type = Withdrawal, t_amount = Fin camt, t_date = now,
                         t_description = p_description p\<rparr> # c_transactions c\<rparr> # ys\<rparr>)
      \<and> getAccountBalance (snd (makeTransaction new_id now m p)) = Fin 0)
   \<and> (sb_fault se = None \<and> sb_uuid se \<notin> set (map r_id rows)
      \<and> get_current_balance rows uid = samt \<and> 0 < samt
    \<longrightarrow> createTransaction se rows (Some uid) Withdrawal (Fin samt) descr =
      (Inr (\<lparr>r_id = sb_uuid se, r_user_id = uid, r_type = Withdrawal, r_amount = samt,
              r_description = descr, r_balance_after = 0, r_created_at = sb_now se\<rparr>, Fin 0),
       rows @ [\<lparr>r_id = sb_uuid se, r_user_id = uid, r_type = Withdrawal, r_amount = samt,
              r_description = descr, r_balance_after = 0, r_created_at = sb_now se\<rparr>]))
   \<and> (sb_fault se = None \<and> sb_uuid se \<notin> set (map r_id rows)
      \<and> get_current_balance rows uid = samt \<and> 0 < samt
      \<and> (\<forall>r \<in> set rows. r_user_id r = uid \<longrightarrow> r_created_at r < sb_now se)
    \<longrightarrow> getCurrentBalance None
          (snd (createTransaction se rows (Some uid) Withdrawal (Fin samt) descr)) uid
        = Inr (Fin 0))"
proof -
  have server: "post_transaction e db u b =
        (Success (uuid e) (JNum (Fin 0)),
         db\<lparr>accounts := map (\<lambda>a. if acc_id a = acc_id acct then a\<lparr>acc_balance := JNum (Fin 0)\<rparr> else a)
                            (accounts db),
            transactions := transactions db @
              [\<lparr>tx_id = uuid e, tx_account_id = acc_id acct, tx_type = ''withdrawal'',
                tx_amount = JNum (Fin amt),
                tx_description = description_or_null (b_description b),
                tx_created_at = clock e\<rparr>],
            open_txn := None\<rparr>)
      \<and> find (\<lambda>a. acc_user_id a = user_id u) (accounts (snd (post_transaction e db u b)))
          = Some (acct\<lparr>acc_balance := JNum (Fin 0)\<rparr>)
      \<and> get_balance None (snd (post_transaction e db u b)) u = BalanceJson (JNum (Fin 0))"
    if "user_role u = ''customer'' \<and> fault e = None \<and> open_txn db = None
      \<and> uuid e \<notin> set (map tx_id (transactions db))
      \<and> b_type b = JStr ''withdrawal'' \<and> b_amount b = JNum (Fin amt) \<and> 0 < amt
      \<and> find (\<lambda>a. acc_user_id a = user_id u) (accounts db) = Some acct
      \<and> acc_balance acct = JNum (Fin amt)"
  proof -
    from that have p: "user_role u = ''customer''" "fault e = None" "open_txn db = None"
      "uuid e \<notin> set (map tx_id (transactions db))"
      "b_type b = JStr ''withdrawal''" "b_amount b = JNum (Fin amt)" "0 < amt"
      "find (\<lambda>a. acc_user_id a = user_id u) (accounts db) = Some acct"
      "acc_balance acct = JNum (Fin amt)"
      by blast+
    show ?thesis by (rule server_exact_withdrawal[OF p])
  qed
  have mock: "makeTransaction new_id now m p =
        (Inr (new_id, Fin 0),
         m\<lparr>mock_customers :=
             xs @ c\<lparr>c_balance := Fin 0,
                     c_transactions :=
                       \<lparr>t_id = new_id, t_type = Withdrawal, t_amount = Fin camt, t_date = now,
                         t_description = p_description p\<rparr> # c_transactions c\<rparr> # ys\<rparr>)
      \<and> getAccountBalance (snd (makeTransaction new_id now m p)) = Fin 0"
    if "mock_customers m = xs @ c # ys \<and> (\<forall>x \<in> set xs. c_id x \<noteq> DEMO_CUSTOMER_ID m)
      \<and> c_id c = DEMO_CUSTOMER_ID m \<and> c_balance c = Fin camt
      \<and> p_type p = Withdrawal \<and> p_amount p = Fin camt"
  proof -
    from that have p: "mock_customers m = xs @ c # ys"
      "\<forall>x \<in> set xs. c_id x \<noteq> DEMO_CUSTOMER_ID m"
      "c_id c = DEMO_CUSTOMER_ID m" "c_balance c = Fin camt"
      "p_type p = Withdrawal" "p_amount p = Fin camt"
      by blast+
    show ?thesis by (rule mock_exact_withdrawal[OF p])
  qed
  have sb: "createTransaction se rows (Some uid) Withdrawal (Fin samt) descr =
      (Inr (\<lparr>r_id = sb_uuid se, r_user_id = uid, r_type = Withdrawal, r_amount = samt,
              r_description = descr, r_balance_after = 0, r_created_at = sb_now se\<rparr>, Fin 0),
       rows @ [\<lparr>r_id = sb_uuid se, r_user_id = uid, r_type = Withdrawal, r_amount = samt,
              r_description = descr, r_balance_after = 0, r_created_at = sb_now se\<rparr>])"
    if "sb_fault se = None \<and> sb_uuid se \<notin> set (map r_id rows)
      \<and> get_current_balance rows uid = samt \<and> 0 < samt"
  proof -
    from that have p: "sb_fault se = None" "sb_uuid se \<notin> set (map r_id rows)"
      "get_current_balance rows uid = samt" "0 < samt"
      by blast+
    show ?thesis by (rule supabase_exact_withdrawal[OF p])
  qed
  have read: "getCurrentBalance None
          (snd (createTransaction se rows (Some uid) Withdrawal (Fin samt) descr)) uid
        = Inr (Fin 0)"
    if "sb_fault se = None \<and> sb_uuid se \<notin> set (map r_id rows)
      \<and> get_current_balance rows uid = samt \<and> 0 < samt
      \<and> (\<forall>r \<in> set rows. r_user_id r = uid \<longrightarrow> r_created_at r < sb_now se)"
  proof -
    from that have l: "\<forall>r \<in> set rows. r_user_id r = uid \<longrightarrow> r_created_at r < sb_now se"
      by blast
    from that have "sb_fault se = None \<and> sb_uuid se \<notin> set (map r_id rows)
      \<and> get_current_balance rows uid = samt \<and> 0 < samt" by blast
    from sb[OF this] show ?thesis
      using supabase_exact_withdrawal_read_back[OF l, of samt descr] by simp
  qed
  from server mock sb read show ?thesis by blast
qed

theorem withdrawal_of_whole_balance_accepted_witness:
  "find (\<lambda>a. acc_user_id a = user_id john) (accounts seeded)
       = Some \<lparr>acc_id = ''id-2'', acc_user_id = ''id-1'', acc_balance = JNum (Fin 5000)\<rparr>
   \<and> ''t9'' \<notin> set (map tx_id (transactions seeded))
   \<and> fst (post_transaction (at_time ''t9'' 5) seeded john (request ''withdrawal'' (JNum (Fin 5000))))
       = Success ''t9'' (JNum (Fin 0))
   \<and> find (\<lambda>a. acc_user_id a = user_id john)
        (accounts (snd (post_transaction (at_time ''t9'' 5) seeded john
           (request ''withdrawal'' (JNum (Fin 5000))))))
       = Some \<lparr>acc_id = ''id-2'', acc_user_id = ''id-1'', acc_balance = JNum (Fin 0)\<rparr>
   \<and> get_balance None
        (snd (post_transaction (at_time ''t9'' 5) seeded john (request ''withdrawal'' (JNum (Fin 5000)))))
        john = BalanceJson (JNum (Fin 0))
   \<and> mock_customers (load_mock example_ids 0)
       = [] @ hd (customers example_ids 0) # tl (customers example_ids 0)
   \<and> c_id (hd (customers example_ids 0)) = DEMO_CUSTOMER_ID (load_mock example_ids 0)
   \<and> c_balance (hd (customers example_ids 0)) = Fin 5000
   \<and> map c_balance (mock_customers (snd (makeTransaction ''n'' 9 (load_mock example_ids 0)
        \<lparr>p_type = Withdrawal, p_amount = Fin 5000, p_description = None\<rparr>)))
       = [Fin 0, Fin 7500]
   \<and> get_current_balance [opening_row] ''u'' = 6500
   \<and> r_created_at opening_row < sb_now (sb_at_time ''t1'' 1)
   \<and> createTransaction (sb_at_time ''t1'' 1) [opening_row] (Some ''u'') Withdrawal (Fin 6500) None =
      (Inr (\<lparr>r_id = ''t1'', r_user_id = ''u'', r_type = Withdrawal, r_amount = 6500,
              r_description = None, r_balance_after = 0, r_created_at = 1\<rparr>, Fin 0),
       [opening_row, \<lparr>r_id = ''t1'', r_user_id = ''u'', r_type = Withdrawal, r_amount = 6500,
              r_description = None, r_balance_after = 0, r_created_at = 1\<rparr>])
   \<and> getCurrentBalance None
        [opening_row, \<lparr>r_id = ''t1'', r_user_id = ''u'', r_type = Withdrawal, r_amount = 6500,
              r_description = None, r_balance_after = 0, r_created_at = 1\<rparr>] ''u''
       = Inr (Fin 0)"
proof -
  have h1: "user_role john = ''customer''" "fault (at_time ''t9'' 5) = None"
    "b_type (request ''withdrawal'' (JNum (Fin 5000))) = JStr ''withdrawal''"
    "b_amount (request ''withdrawal'' (JNum (Fin 5000))) = JNum (Fin 5000)"
    "sb_fault (sb_at_time ''t1'' 1) = None" "sb_uuid (sb_at_time ''t1'' 1) = ''t1''"
    "sb_now (sb_at_time ''t1'' 1) = 1" "uuid (at_time ''t9'' 5) = ''t9''"
    by (simp_all add: john_def at_time_def request_def sb_at_time_def)
  have h2: "find (\<lambda>a. acc_user_id a = user_id john) (accounts seeded)
       = Some \<lparr>acc_id = ''id-2'', acc_user_id = ''id-1'', acc_balance = JNum (Fin 5000)\<rparr>"
    "open_txn seeded = None" "''t9'' \<notin> set (map tx_id (transactions seeded))"
    by code_simp+
  have h3: "mock_customers (load_mock example_ids 0)
       = [] @ hd (customers example_ids 0) # tl (customers example_ids 0)"
    "c_id (hd (customers example_ids 0)) = DEMO_CUSTOMER_ID (load_mock example_ids 0)"
    "c_balance (hd (customers example_ids 0)) = Fin 5000"
    "map c_balance (tl (customers example_ids 0)) = [Fin 7500]"
    by (simp_all add: load_mock_def customers_def)
  have h4: "get_current_balance [opening_row] ''u'' = 6500" "''t1'' \<notin> set (map r_id [opening_row])"
    by code_simp+
  have h5: "r_created_at opening_row < sb_now (sb_at_time ''t1'' 1)"
    by (simp add: opening_row_def sb_at_time_def)
  have h6: "\<forall>r \<in> set [opening_row]. r_user_id r = ''u'' \<longrightarrow> r_created_at r < sb_now (sb_at_time ''t1'' 1)"
    using h5 by simp
  note t = withdrawal_of_whole_balance_accepted[where u = john and e = "at_time ''t9'' 5"
      and db = seeded and b = "request ''withdrawal'' (JNum (Fin 5000))" and amt = 5000
      and acct = "\<lparr>acc_id = ''id-2'', acc_user_id = ''id-1'', acc_balance = JNum (Fin 5000)\<rparr>"
      and m = "load_mock example_ids 0" and xs = "[]" and c = "hd (customers example_ids 0)"
      and ys = "tl (customers example_ids 0)" and camt = 5000
      and p = "\<lparr>p_type = Withdrawal, p_amount = Fin 5000, p_description = None\<rparr>"
      and new_id = "''n''" and now = 9
      and se = "sb_at_time ''t1'' 1" and rows = "[opening_row]" and uid = "''u''"
      and samt = 6500 and descr = None]
  have s: "post_transaction (at_time ''t9'' 5) seeded john (request ''withdrawal'' (JNum (Fin 5000))) =
        (Success (uuid (at_time ''t9'' 5)) (JNum (Fin 0)),
         seeded\<lparr>accounts := map (\<lambda>a. if acc_id a = acc_id \<lparr>acc_id = ''id-2'', acc_user_id = ''id-1'', acc_balance = JNum (Fin 5000)\<rparr> then a\<lparr>acc_balance := JNum (Fin 0)\<rparr> else a)
                            (accounts seeded),
            transactions := transactions seeded @
              [\<lparr>tx_id = uuid (at_time ''t9'' 5), tx_account_id = acc_id \<lparr>acc_id = ''id-2'', acc_user_id = ''id-1'', acc_balance = JNum (Fin 5000)\<rparr>, tx_type = ''withdrawal'',
                tx_amount = JNum (Fin 5000),
                tx_description = description_or_null (b_description (request ''withdrawal'' (JNum (Fin 5000)))),
                tx_created_at = clock (at_time ''t9'' 5)\<rparr>],
            open_txn := None\<rparr>)
      \<and> find (\<lambda>a. acc_user_id a = user_id john)
           (accounts (snd (post_transaction (at_time ''t9'' 5) seeded john (request ''withdrawal'' (JNum (Fin 5000))))))
          = Some (\<lparr>acc_id = ''id-2'', acc_user_id = ''id-1'', acc_balance = JNum (Fin 5000)\<rparr>\<lparr>acc_balance := JNum (Fin 0)\<rparr>)
      \<and> get_balance None (snd (post_transaction (at_time ''t9'' 5) seeded john (request ''withdrawal'' (JNum (Fin 5000))))) john
          = BalanceJson (JNum (Fin 0))"
    by (rule t[THEN conjunct1, THEN mp]) (use h1 h2 in simp)
  have w1: "fst (post_transaction (at_time ''t9'' 5) seeded john (request ''withdrawal'' (JNum (Fin 5000))))
       = Success ''t9'' (JNum (Fin 0))"
    using s[THEN conjunct1] h1(8) by simp
  have w2: "find (\<lambda>a. acc_user_id a = user_id john)
        (accounts (snd (post_transaction (at_time ''t9'' 5) seeded john
           (request ''withdrawal'' (JNum (Fin 5000))))))
       = Some \<lparr>acc_id = ''id-2'', acc_user_id = ''id-1'', acc_balance = JNum (Fin 0)\<rparr>"
    using s[THEN conjunct2, THEN conjunct1] by simp
  have w3: "get_balance None
        (snd (post_transaction (at_time ''t9'' 5) seeded john (request ''withdrawal'' (JNum (Fin 5000)))))
        john = BalanceJson (JNum (Fin 0))"
    using s[THEN conjunct2, THEN conjunct2] by simp
  have mk: "makeTransaction ''n'' 9 (load_mock example_ids 0)
        \<lparr>p_type = Withdrawal, p_amount = Fin 5000, p_description = None\<rparr> =
        (Inr (''n'', Fin 0),
         (load_mock example_ids 0)\<lparr>mock_customers :=
             [] @ (hd (customers example_ids 0))\<lparr>c_balance := Fin 0,
                     c_transactions :=
                       \<lparr>t_id = ''n'', t_type = Withdrawal, t_amount = Fin 5000, t_date = 9,
                         t_description = p_description \<lparr>p_type = Withdrawal, p_amount = Fin 5000, p_description = None\<rparr>\<rparr>
                       # c_transactions (hd (customers example_ids 0))\<rparr> # tl (customers example_ids 0)\<rparr>)
      \<and> getAccountBalance (snd (makeTransaction ''n'' 9 (load_mock example_ids 0)
        \<lparr>p_type = Withdrawal, p_amount = Fin 5000, p_description = None\<rparr>)) = Fin 0"
    by (rule t[THEN conjunct2, THEN conjunct1, THEN mp]) (use h3(1-3) in simp)
  have w4: "map c_balance (mock_customers (snd (makeTransaction ''n'' 9 (load_mock example_ids 0)
        \<lparr>p_type = Withdrawal, p_amount = Fin 5000, p_description = None\<rparr>)))
       = [Fin 0, Fin 7500]"
    using mk[THEN conjunct1] h3(4) by simp
  have w5: "createTransaction (sb_at_time ''t1'' 1) [opening_row] (Some ''u'') Withdrawal (Fin 6500) None =
      (Inr (\<lparr>r_id = ''t1'', r_user_id = ''u'', r_type = Withdrawal, r_amount = 6500,
              r_description = None, r_balance_after = 0, r_created_at = 1\<rparr>, Fin 0),
       [opening_row, \<lparr>r_id = ''t1'', r_user_id = ''u'', r_type = Withdrawal, r_amount = 6500,
              r_description = None, r_balance_after = 0, r_created_at = 1\<rparr>])"
    using t[THEN conjunct2, THEN conjunct2, THEN conjunct1, THEN mp] h1(5-7) h4 by simp
  have "getCurrentBalance None
          (snd (createTransaction (sb_at_time ''t1'' 1) [opening_row] (Some ''u'') Withdrawal (Fin 6500) None)) ''u''
        = Inr (Fin 0)"
    by (rule t[THEN conjunct2, THEN conjunct2, THEN conjunct2, THEN mp]) (use h1(5,6) h4 h6 in simp)
  then have w6: "getCurrentBalance None
        [opening_row, \<lparr>r_id = ''t1'', r_user_id = ''u'', r_type = Withdrawal, r_amount = 6500,
              r_description = None, r_balance_after = 0, r_created_at = 1\<rparr>] ''u''
       = Inr (Fin 0)"
    unfolding w5 by simp
  from h2(1,3) h3(1-3) h4(1) h5 w1 w2 w3 w4 w5 w6 show ?thesis by blast
qed

section \<open>Reading the balance\<close>

text \<open>
  The server's balance endpoint, for a customer: the stored balance of the user's account
  when there is one, the 404 error when there is none.
\<close>

lemma server_balance_found:
  assumes "user_role u = ''customer''"
    and "find (\<lambda>a. acc_user_id a = user_id u) (accounts db) = Some acct"
  shows "get_balance None db u = BalanceJson (acc_balance acct)"
  using assms by (simp add: get_balance_def db_get_account_def)

lemma server_balance_not_found:
  assumes "user_role u = ''customer''"
    and "find (\<lambda>a. acc_user_id a = user_id u) (accounts db) = None"
  shows "get_balance None db u = Error 404 ''Account not found''"
  using assms by (simp add: get_balance_def db_get_account_def)

text \<open>
  The mock service looks up \<open>customers[0].id\<close> as it was when the module loaded. Neither
  \<open>updateCustomerBalance\<close> nor the sort of \<open>getRecentTransactions\<close> adds, removes or renames
  a customer, so in every state the service reaches the customer it looks up is there, at
  the head of the array, and \<open>getAccountBalance\<close> returns the customer's balance unless
  that balance is \<open>NaN\<close>.
\<close>

lemma updateCustomerBalance_ids:
  "map c_id (updateCustomerBalance cs cid nb t) = map c_id cs"
  by (induction cs) auto

lemma sort_transactions_ids:
  "map c_id (sort_transactions cs cid) = map c_id cs"
  by (induction cs) auto

lemma reachable_ids:
  assumes "reachable ids t0 m"
  shows "DEMO_CUSTOMER_ID m = ids 0 \<and> map c_id (mock_customers m) = [ids 0, ids 3]"
  using assms
proof (induction rule: reachable.induct)
  case loaded
  show ?case by (simp add: load_mock_def customers_def)
next
  case (after_makeTransaction m new_id now p)
  then show ?case
    by (auto simp: makeTransaction_def Let_def updateCustomerBalance_ids split: option.splits)
next
  case (after_getRecentTransactions m limit)
  then show ?case
    by (auto simp: getRecentTransactions_def sort_transactions_ids split: option.splits)
qed

lemma reachable_customer_present:
  assumes "reachable ids t0 m"
  shows "find (\<lambda>c. c_id c = DEMO_CUSTOMER_ID m) (mock_customers m) = Some (hd (mock_customers m))"
proof -
  from reachable_ids[OF assms]
  have d: "DEMO_CUSTOMER_ID m = ids 0" and i: "map c_id (mock_customers m) = [ids 0, ids 3]"
    by simp_all
  from i obtain a b where ab: "mock_customers m = [a, b]" "c_id a = ids 0" by auto
  then show ?thesis using d by simp
qed

lemma reachable_getAccountBalance:
  assumes "reachable ids t0 m"
  shows "getAccountBalance m =
           (if c_balance (hd (mock_customers m)) = NaN then Fin 0
            else c_balance (hd (mock_customers m)))"
  using reachable_customer_present[OF assms]
  by (cases "c_balance (hd (mock_customers m))") (auto simp: getAccountBalance_def)

lemma nan_deposit_reachable:
  "reachable example_ids 0 (snd nan_deposit)"
  unfolding nan_deposit_def by (rule after_makeTransaction) (rule loaded)

text \<open>
  Claim C8 requires the balance read to return the current balance of an account that
  exists, and to fail with the not-found error, never with a default, for one that does
  not. The server does both. The mock's \<open>getAccountBalance\<close> never meets a missing account,
  but its result is \<open>customer?.balance || 0\<close>, and the default also stands in for a balance
  that is there. \<open>makeTransaction\<close> has no test on the amount: called on the freshly loaded
  service with a deposit of \<open>NaN\<close> it succeeds and stores \<open>5000 + NaN\<close>, which is \<open>NaN\<close>,
  as the balance of the customer. The customer exists, the stored balance is \<open>NaN\<close>, and
  \<open>getAccountBalance\<close> returns 0.
\<close>

theorem nan_balance_is_read_as_zero:
  "fst nan_deposit = Inr (''n'', NaN)
   \<and> map_option c_balance
        (find (\<lambda>c. c_id c = DEMO_CUSTOMER_ID (snd nan_deposit)) (mock_customers (snd nan_deposit)))
       = Some NaN
   \<and> getAccountBalance (snd nan_deposit) = Fin 0"
  by (intro conjI; code_simp)

section \<open>Listing transactions\<close>

text \<open>
  Claim C9 says that the listing is ordered by \<open>created_at\<close> and that the caller may ask
  for ascending or descending order. The listing functions take no order: the server's
  answer is determined by the database and the user, and after a deposit at time 5 on the
  seeded account it is newest first, so not ascending. The mock returns its stored array,
  which after one deposit is in neither order.
\<close>

theorem listing_order_not_selectable:
  "dates_of (get_transactions None after_deposit john) = [5, 0]
   \<and> \<not> sorted (dates_of (get_transactions None after_deposit john))
   \<and> map t_date (getTransactions_mock mock_after_deposit)
       = [10 * day + 1000, 3 * day, 5 * day]
   \<and> \<not> sorted (map t_date (getTransactions_mock mock_after_deposit))
   \<and> \<not> sorted (rev (map t_date (getTransactions_mock mock_after_deposit)))"
  by code_simp

lemma newest_first_sorted:
  fixes f :: "'a \<Rightarrow> int"
  shows "sorted_wrt (\<lambda>x y. f y \<le> f x) (sort_key (\<lambda>x. - f x) xs)"
  using sorted_sort_key[of "\<lambda>x. - f x" xs] by (simp add: sorted_wrt_map)

lemma server_listing:
  assumes "user_role u = ''customer''"
    and "find (\<lambda>a. acc_user_id a = user_id u) (accounts db) = Some acct"
  shows "\<exists>rows. get_transactions None db u = TransactionsJson (map tx_columns rows)
           \<and> mset rows = mset (filter (\<lambda>t. tx_account_id t = acc_id acct) (transactions db))
           \<and> sorted_wrt (\<lambda>s t. tx_created_at t \<le> tx_created_at s) rows"
proof (intro exI conjI)
  show "get_transactions None db u = TransactionsJson (map tx_columns
          (sort_key (\<lambda>t. - tx_created_at t)
             (filter (\<lambda>t. tx_account_id t = acc_id acct) (transactions db))))"
    using assms by (simp add: get_transactions_def db_get_account_def db_all_transactions_def)
qed (simp_all add: newest_first_sorted)

lemma supabase_listing:
  "\<exists>rows. getTransactions_sb None table uid = Inr rows
           \<and> mset rows = mset (filter (\<lambda>r. r_user_id r = uid) table)
           \<and> sorted_wrt (\<lambda>s t. r_created_at t \<le> r_created_at s) rows"
proof (intro exI conjI)
  show "getTransactions_sb None table uid =
          Inr (sort_key (\<lambda>r. - r_created_at r) (filter (\<lambda>r. r_user_id r = uid) table))"
    by (simp add: getTransactions_sb_def)
qed (simp_all add: newest_first_sorted)

text \<open>
  Claim C9 as amended. The server's listing for a customer and the Supabase
  \<open>getTransactions\<close> each return, in one result, exactly the transactions of the account
  (as a multiset: nothing dropped, nothing repeated), ordered by \<open>created_at\<close> descending;
  the mock \<open>getTransactions\<close> returns the stored array of the customer unchanged. None of
  them takes an order from the caller.
\<close>

theorem listing_complete_newest_first:
  "(user_role u = ''customer'' \<and> find (\<lambda>a. acc_user_id a = user_id u) (accounts db) = Some acct
      \<longrightarrow> (\<exists>rows. get_transactions None db u = TransactionsJson (map tx_columns rows)
           \<and> mset rows = mset (filter (\<lambda>t. tx_account_id t = acc_id acct) (transactions db))
           \<and> sorted_wrt (\<lambda>s t. tx_created_at t \<le> tx_created_at s) rows))
   \<and> (\<exists>rows. getTransactions_sb None table uid = Inr rows
           \<and> mset rows = mset (filter (\<lambda>r. r_user_id r = uid) table)
           \<and> sorted_wrt (\<lambda>s t. r_created_at t \<le> r_created_at s) rows)
   \<and> (find (\<lambda>c. c_id c = DEMO_CUSTOMER_ID m) (mock_customers m) = Some c
      \<longrightarrow> getTransactions_mock m = c_transactions c)"
  using server_listing[of u db acct] supabase_listing[of table uid]
  by (simp add: getTransactions_mock_def)

theorem listing_complete_newest_first_witness:
  "user_role john = ''customer''
   \<and> find (\<lambda>a. acc_user_id a = user_id john) (accounts after_deposit)
       = Some \<lparr>acc_id = ''id-2'', acc_user_id = ''id-1'', acc_balance = JNum (Fin 7000)\<rparr>
   \<and> (\<exists>rows. get_transactions None after_deposit john = TransactionsJson (map tx_columns rows)
           \<and> mset rows = mset (filter (\<lambda>t. tx_account_id t = ''id-2'') (transactions after_deposit))
           \<and> sorted_wrt (\<lambda>s t. tx_created_at t \<le> tx_created_at s) rows)
   \<and> find (\<lambda>c. c_id c = DEMO_CUSTOMER_ID mock_after_deposit) (mock_customers mock_after_deposit)
       = Some (hd (mock_customers mock_after_deposit))
   \<and> getTransactions_mock mock_after_deposit = c_transactions (hd (mock_customers mock_after_deposit))"
proof -
  have h1: "user_role john = ''customer''" by (simp add: john_def)
  have h2: "find (\<lambda>a. acc_user_id a = user_id john) (accounts after_deposit)
       = Some \<lparr>acc_id = ''id-2'', acc_user_id = ''id-1'', acc_balance = JNum (Fin 7000)\<rparr>"
    by code_simp
  have h3: "find (\<lambda>c. c_id c = DEMO_CUSTOMER_ID mock_after_deposit) (mock_customers mock_after_deposit)
       = Some (hd (mock_customers mock_after_deposit))"
    by code_simp
  note t = listing_complete_newest_first[of john after_deposit
      "\<lparr>acc_id = ''id-2'', acc_user_id = ''id-1'', acc_balance = JNum (Fin 7000)\<rparr>"
      "[opening_row]" "''u''" mock_after_deposit "hd (mock_customers mock_after_deposit)"]
  have w1: "\<exists>rows. get_transactions None after_deposit john = TransactionsJson (map tx_columns rows)
           \<and> mset rows = mset (filter (\<lambda>t. tx_account_id t = ''id-2'') (transactions after_deposit))
           \<and> sorted_wrt (\<lambda>s t. tx_created_at t \<le> tx_created_at s) rows"
    using t[THEN conjunct1] h1 h2 by simp
  have w2: "getTransactions_mock mock_after_deposit = c_transactions (hd (mock_customers mock_after_deposit))"
    using t[THEN conjunct2, THEN conjunct2] h3 by (rule mp)
  from h1 h2 h3 w1 w2 show ?thesis by blast
qed

section \<open>Amounts that are not positive numbers\<close>

text \<open>
  What the server's input check does refuse: a missing, null, empty, \<open>NaN\<close>, zero or negative
  amount is answered with the 400 error and the database is untouched.
\<close>

lemma server_rejects_missing_zero_negative:
  assumes "user_role u = ''customer''"
    and "b_amount b \<in> {JUndefined, JNull, JStr [], JNum NaN} \<or> (\<exists>q. b_amount b = JNum (Fin q) \<and> q \<le> 0)"
  shows "post_transaction e db u b = (Error 400 ''Invalid transaction data'', db)"
  using assms by (auto simp: post_transaction_def num_le_def)

text \<open>
  Claim C7 requires every request whose amount is not a finite number greater than 0 to fail
  with the invalid-amount error and to change nothing, naming a deposit of \<open>-5\<close> and a
  deposit of the string \<open>abc\<close>. The code at these inputs: the server's test
  \<open>!amount || amount <= 0\<close> is false for \<open>abc\<close>, the deposit is accepted, the balance
  becomes the text \<open>5000abc\<close> and a transaction is recorded; the string \<open>5\<close> is
  accepted likewise and the balance read back is 50005; the mock, which has no test on the
  amount, accepts the deposit of \<open>-5\<close> and lowers the balance to 4995.
\<close>

theorem invalid_amounts_accepted:
  "fst (post_transaction (at_time ''t9'' 5) seeded john (request ''deposit'' (JStr ''abc'')))
     = Success ''t9'' (JStr ''5000abc'')
   \<and> get_balance None
        (snd (post_transaction (at_time ''t9'' 5) seeded john (request ''deposit'' (JStr ''abc''))))
        john = BalanceJson (JStr ''5000abc'')
   \<and> length (transactions
        (snd (post_transaction (at_time ''t9'' 5) seeded john (request ''deposit'' (JStr ''abc'')))))
       = length (transactions seeded) + 1
   \<and> fst (post_transaction (at_time ''t9'' 5) seeded john (request ''deposit'' (JStr ''5'')))
       = Success ''t9'' (JStr ''50005'')
   \<and> get_balance None
        (snd (post_transaction (at_time ''t9'' 5) seeded john (request ''deposit'' (JStr ''5''))))
        john = BalanceJson (JNum (Fin 50005))
   \<and> fst (makeTransaction ''n'' 9 (load_mock example_ids 0)
            \<lparr>p_type = Deposit, p_amount = Fin (- 5), p_description = None\<rparr>)
       = Inr (''n'', Fin 4995)
   \<and> getAccountBalance
        (snd (makeTransaction ''n'' 9 (load_mock example_ids 0)
            \<lparr>p_type = Deposit, p_amount = Fin (- 5), p_description = None\<rparr>))
       = Fin 4995"
  by (intro conjI; code_simp)

text \<open>
  The first of these inputs once more, with the two tests of the input check that let it
  through.
\<close>

theorem invalid_amounts_accepted_witness:
  "truthy (JStr ''abc'') \<and> \<not> js_le (JStr ''abc'') (JNum (Fin 0))
   \<and> fst (post_transaction (at_time ''t9'' 5) seeded john (request ''deposit'' (JStr ''abc'')))
       = Success ''t9'' (JStr ''5000abc'')"
proof -
  have a: "truthy (JStr ''abc'')" by simp
  have b: "\<not> js_le (JStr ''abc'') (JNum (Fin 0))" by code_simp
  have c: "fst (post_transaction (at_time ''t9'' 5) seeded john (request ''deposit'' (JStr ''abc'')))
       = Success ''t9'' (JStr ''5000abc'')"
    using invalid_amounts_accepted by (rule conjunct1)
  from a b c show ?thesis by blast
qed

section \<open>The balance identity\<close>

text \<open>
  On the server the identity holds after seeding, and every accepted request with a numeric
  amount keeps it.
\<close>

lemma server_seed_balance_identity:
  "list_all (server_balance_identity seeded) (accounts seeded)"
  by code_simp

lemma num_sub_Fin:
  "num_sub d w = Fin q \<Longrightarrow> \<exists>x y. d = Fin x \<and> w = Fin y \<and> q = x - y"
  by (cases d; cases w) (auto simp: num_sub_def)

lemma sum_amounts_append:
  "transactions db' = transactions db @ [t] \<Longrightarrow>
   sum_amounts db' aid ty
   = (if tx_account_id t = aid \<and> tx_type t = ty
      then num_add (sum_amounts db aid ty) (to_number (tx_amount t))
      else sum_amounts db aid ty)"
  by (simp add: sum_amounts_def)

lemma net_amount_other:
  assumes "transactions db' = transactions db @ [t]" and "tx_account_id t \<noteq> aid"
  shows "net_amount db' aid = net_amount db aid"
  using assms by (simp add: net_amount_def sum_amounts_append)

lemma net_amount_deposit:
  assumes "transactions db' = transactions db @ [t]" and "tx_account_id t = aid"
    and "tx_type t = ''deposit''" and "tx_amount t = JNum (Fin amt)"
    and "net_amount db aid = Fin q"
  shows "net_amount db' aid = Fin (q + amt)"
proof -
  from num_sub_Fin[OF assms(5)[unfolded net_amount_def]] obtain x y where
    "sum_amounts db aid ''deposit'' = Fin x" "sum_amounts db aid ''withdrawal'' = Fin y" "q = x - y"
    by blast
  then show ?thesis
    using assms(1-4) by (simp add: net_amount_def sum_amounts_append num_sub_def)
qed

lemma net_amount_withdrawal:
  assumes "transactions db' = transactions db @ [t]" and "tx_account_id t = aid"
    and "tx_type t = ''withdrawal''" and "tx_amount t = JNum (Fin amt)"
    and "net_amount db aid = Fin q"
  shows "net_amount db' aid = Fin (q - amt)"
proof -
  from num_sub_Fin[OF assms(5)[unfolded net_amount_def]] obtain x y where
    "sum_amounts db aid ''deposit'' = Fin x" "sum_amounts db aid ''withdrawal'' = Fin y" "q = x - y"
    by blast
  then show ?thesis
    using assms(1-4) by (simp add: net_amount_def sum_amounts_append num_sub_def)
qed

lemma server_identity_preserved:
  assumes ok: "post_transaction e db u b = (Success tid nb, db')"
    and amt: "b_amount b = JNum (Fin amt)"
    and inv: "list_all (server_balance_identity db) (accounts db)"
  shows "list_all (server_balance_identity db') (accounts db')"
proof -
  from post_transaction_success[OF ok] obtain acct where
        found: "find (\<lambda>a. acc_user_id a = user_id u) (accounts db) = Some acct"
    and ty: "b_type b = JStr ''deposit'' \<or> b_type b = JStr ''withdrawal''"
    and nb: "nb = (if b_type b = JStr ''deposit'' then js_add (acc_balance acct) (b_amount b)
                    else js_sub (acc_balance acct) (b_amount b))"
    and acc: "accounts db' = map (\<lambda>a. if acc_id a = acc_id acct then a\<lparr>acc_balance := real_affinity nb\<rparr> else a) (accounts db)"
    and txs: "transactions db' = transactions db @
                [\<lparr>tx_id = tid, tx_account_id = acc_id acct, tx_type = to_string (b_type b),
                  tx_amount = real_affinity (b_amount b),
                  tx_description = description_or_null (b_description b),
                  tx_created_at = clock e\<rparr>]"
    by blast
  from found have "acct \<in> set (accounts db)"
    by (auto simp: find_Some_iff)
  with inv have "server_balance_identity db acct" by (simp add: list_all_iff)
  then obtain q where q: "net_amount db (acc_id acct) = Fin q" "acc_balance acct = JNum (Fin q)"
    by (cases "net_amount db (acc_id acct)") (simp_all add: server_balance_identity_def)
  define q' where "q' = (if b_type b = JStr ''deposit'' then q + amt else q - amt)"
  have nbv: "nb = JNum (Fin q')"
    unfolding nb q'_def q(2) amt by (simp add: js_add_def js_sub_def num_sub_def)
  have net': "net_amount db' (acc_id acct) = Fin q'"
  proof (cases "b_type b = JStr ''deposit''")
    case True
    show ?thesis
      unfolding q'_def using True net_amount_deposit[OF txs _ _ _ q(1), of amt] amt by simp
  next
    case False
    with ty have w: "b_type b = JStr ''withdrawal''" by simp
    show ?thesis
      unfolding q'_def using w net_amount_withdrawal[OF txs _ _ _ q(1), of amt] amt by simp
  qed
  have other: "net_amount db' aid = net_amount db aid" if "aid \<noteq> acc_id acct" for aid
    using net_amount_other[OF txs, of aid] that by simp
  have step: "server_balance_identity db'
                (if acc_id a0 = acc_id acct then a0\<lparr>acc_balance := real_affinity nb\<rparr> else a0)"
    if "server_balance_identity db a0" for a0
  proof (cases "acc_id a0 = acc_id acct")
    case True
    then show ?thesis by (simp add: server_balance_identity_def net' nbv)
  next
    case False
    then show ?thesis using that other[of "acc_id a0"] by (simp add: server_balance_identity_def)
  qed
  have "\<forall>a0 \<in> set (accounts db). server_balance_identity db'
          (if acc_id a0 = acc_id acct then a0\<lparr>acc_balance := real_affinity nb\<rparr> else a0)"
    using inv step unfolding list_all_iff by blast
  then show ?thesis
    unfolding acc list_all_iff by (metis (no_types, lifting) imageE list.set_map)
qed

text \<open>
  Claim C3 requires, in every reachable state, that the balance of each account equals the
  sum of its deposits minus the sum of its withdrawals. The store of the mock as the module
  creates it, for any identifiers and clock: the balances are 5000 and 7500 while the
  recorded transactions total 1500 and 0, so the identity fails for both customers before
  any call is made.
\<close>

theorem mock_seed_breaks_balance_identity:
  "map c_balance (customers ids now) = [Fin 5000, Fin 7500]
   \<and> map (\<lambda>c. num_sub (totalDeposits (c_transactions c)) (totalWithdrawals (c_transactions c)))
         (customers ids now) = [Fin 1500, Fin 0]
   \<and> map balance_identity (customers ids now) = [False, False]"
  by (simp add: customers_def balance_identity_def totalDeposits_def totalWithdrawals_def num_sub_def)

section \<open>Two withdrawals in flight\<close>

text \<open>Running both steps of one call with nothing in between is \<open>createTransaction\<close>.\<close>

lemma createTransaction_as_steps:
  "(let (st, rows1) = call_step e c Started rows in call_step e c st rows1)
   = (let (res, rows') = createTransaction e rows (Some (call_user c)) (call_type c)
                           (call_amount c) (call_description c)
      in (Settled res, rows'))"
  by (simp add: call_step_def createTransaction_def split: sum.splits prod.splits)

text \<open>
  Claim C5 requires concurrent calls on one account to have the effect of some serial order;
  its example is two withdrawals of 4000 against a balance of 6500. With the schedule in
  which both calls read the balance before either inserts, both are accepted, each row
  records \<open>balance_after = 2500\<close> and the balance ends at 2500 after 8000 was withdrawn.
  In either serial order the second call fails with \<open>Insufficient funds\<close> and one row is
  inserted, so the interleaved outcome is that of no serial order.
\<close>

theorem interleaved_withdrawals_both_accepted:
  "run_two withdraw_4000 withdraw_4000
     [(First, sb_at_time ''t1'' 1), (Second, sb_at_time ''t2'' 2),
      (First, sb_at_time ''t1'' 1), (Second, sb_at_time ''t2'' 2)]
     (Started, Started, [opening_row])
     = (Settled (Inr (withdrawal_row ''t1'' 1, Fin 2500)),
        Settled (Inr (withdrawal_row ''t2'' 2, Fin 2500)),
        [opening_row, withdrawal_row ''t1'' 1, withdrawal_row ''t2'' 2])
   \<and> get_current_balance [opening_row, withdrawal_row ''t1'' 1, withdrawal_row ''t2'' 2] ''u'' = 2500
   \<and> run_two withdraw_4000 withdraw_4000
     [(First, sb_at_time ''t1'' 1), (First, sb_at_time ''t1'' 1),
      (Second, sb_at_time ''t2'' 2), (Second, sb_at_time ''t2'' 2)]
     (Started, Started, [opening_row])
     = (Settled (Inr (withdrawal_row ''t1'' 1, Fin 2500)),
        Settled (Inl (ErrorMsg ''Insufficient funds'')),
        [opening_row, withdrawal_row ''t1'' 1])
   \<and> run_two withdraw_4000 withdraw_4000
     [(Second, sb_at_time ''t2'' 2), (Second, sb_at_time ''t2'' 2),
      (First, sb_at_time ''t1'' 1), (First, sb_at_time ''t1'' 1)]
     (Started, Started, [opening_row])
     = (Settled (Inl (ErrorMsg ''Insufficient funds'')),
        Settled (Inr (withdrawal_row ''t2'' 2, Fin 2500)),
        [opening_row, withdrawal_row ''t2'' 2])"
  by (intro conjI; code_simp)

section \<open>Two requests to the server in flight\<close>

text \<open>Six steps of one request with nothing in between are the handler.\<close>

lemma run_step:
  "request_run e u b (Suc n) (st, db) = request_run e u b n (request_step e u b st db)"
  by (simp split: prod.splits)

lemma run_responded:
  "request_run e u b n (Responded r, db) = (Responded r, db)"
  by (induction n) (simp_all add: request_step_def)

lemma run_caught:
  "request_run e u b (Suc n) (Caught, db) = (Responded (fst (catch_block db)), snd (catch_block db))"
  by (subst run_step) (simp add: request_step_def run_responded)

lemma run_inserted:
  "request_run e u b (Suc (Suc n)) (Inserted nb, db)
     = (case db_commit (fault e) db of
          None \<Rightarrow> (Responded (fst (catch_block db)), snd (catch_block db))
        | Some db4 \<Rightarrow> (Responded (Success (uuid e) nb), db4))"
  by (subst run_step)
     (simp add: request_step_def run_responded run_caught del: request_run.simps split: option.splits)

lemma run_updated:
  "request_run e u b (Suc (Suc (Suc n))) (Updated a nb, db)
     = (case db_insert_transaction (fault e) (clock e) db (uuid e) (acc_id a)
                  (b_type b) (b_amount b) (description_or_null (b_description b)) of
          None \<Rightarrow> (Responded (fst (catch_block db)), snd (catch_block db))
        | Some db3 \<Rightarrow> request_run e u b (Suc (Suc n)) (Inserted nb, db3))"
  by (subst run_step)
     (simp add: request_step_def run_caught del: request_run.simps split: option.splits)

lemma run_begun:
  "request_run e u b (Suc (Suc (Suc (Suc n)))) (Begun a nb, db)
     = (case db_update_balance (fault e) db nb (acc_id a) of
          None \<Rightarrow> (Responded (fst (catch_block db)), snd (catch_block db))
        | Some db2 \<Rightarrow> request_run e u b (Suc (Suc (Suc n))) (Updated a nb, db2))"
  by (subst run_step)
     (simp add: request_step_def run_caught del: request_run.simps split: option.splits)

lemma run_have_account:
  "request_run e u b (Suc (Suc (Suc (Suc (Suc n))))) (HaveAccount a nb, db)
     = (case db_begin (fault e) db of
          None \<Rightarrow> (Responded (fst (catch_block db)), snd (catch_block db))
        | Some db1 \<Rightarrow> request_run e u b (Suc (Suc (Suc (Suc n)))) (Begun a nb, db1))"
  by (subst run_step)
     (simp add: request_step_def run_caught del: request_run.simps split: option.splits)

lemma post_transaction_as_steps:
  "request_run e u b 6 (Received, db)
     = (Responded (fst (post_transaction e db u b)), snd (post_transaction e db u b))"
proof -
  have six: "(6 :: nat) = Suc (Suc (Suc (Suc (Suc (Suc 0)))))" by simp
  show ?thesis
    unfolding six
    by (subst run_step)
       (simp add: request_step_def post_transaction_def run_responded run_caught
          run_have_account run_begun run_updated run_inserted Let_def
          del: request_run.simps split: option.splits)
qed

text \<open>
  Two withdrawals of 4000 from the seeded balance of 5000, with the database calls executed
  in the order they are issued when both requests arrive together. The second \<open>BEGIN\<close>
  finds a transaction open and fails; the \<open>ROLLBACK\<close> of its \<open>catch\<close> block undoes the
  first request's \<open>UPDATE\<close>; the first request's \<open>INSERT\<close> then runs outside any
  transaction and its \<open>COMMIT\<close> fails. A withdrawal is recorded, the balance is
  still 5000, one caller gets the 500 response and the other none. One after the other,
  the first request succeeds with balance 1000 and the second is refused.
\<close>

lemma interleaved_requests_record_without_debit:
  "run_requests (withdrawal_request ''tA'' 5) (withdrawal_request ''tB'' 5)
     [First, Second, First, Second, First, Second, First, First, First]
     (Received, Received, seeded)
   = (Responded NoResponse, Responded (Error 500 ''Server error''),
      seeded\<lparr>transactions := transactions seeded @
         [\<lparr>tx_id = ''tA'', tx_account_id = ''id-2'', tx_type = ''withdrawal'',
           tx_amount = JNum (Fin 4000), tx_description = None, tx_created_at = 5\<rparr>]\<rparr>)
   \<and> get_balance None
        (snd (snd (run_requests (withdrawal_request ''tA'' 5) (withdrawal_request ''tB'' 5)
           [First, Second, First, Second, First, Second, First, First, First]
           (Received, Received, seeded)))) john = BalanceJson (JNum (Fin 5000))
   \<and> run_requests (withdrawal_request ''tA'' 5) (withdrawal_request ''tB'' 5)
     [First, First, First, First, First, Second]
     (Received, Received, seeded)
   = (Responded (Success ''tA'' (JNum (Fin 1000))), Responded (Error 400 ''Insufficient funds''),
      snd (post_transaction (at_time ''tA'' 5) seeded john (request ''withdrawal'' (JNum (Fin 4000)))))"
  by (intro conjI; code_simp)

end
